theory Spec2Isabelle
  imports Main
begin

section \<open>Go machine integers\<close>

text \<open>
  Go's \<open>int64\<close> arithmetic wraps around silently and its \<open>/\<close> truncates towards zero.
  Values are kept as mathematical integers and every arithmetic step of the source is
  passed through \<open>i64\<close>, which reduces it to the two's-complement range.
\<close>

definition i64 :: "int \<Rightarrow> int" where
  "i64 x = (x + 2 ^ 63) mod 2 ^ 64 - 2 ^ 63"

definition quot :: "int \<Rightarrow> int \<Rightarrow> int" where
  "quot a b = sgn a * sgn b * (\<bar>a\<bar> div \<bar>b\<bar>)"

definition maxInt64 :: int where
  "maxInt64 = 2 ^ 63 - 1"

section \<open>Chunked transfer engine: chunk ranges (kcpclient/client.go)\<close>

definition defaultChunkSize :: int where
  "defaultChunkSize = 4 * 1024 * 1024"

text \<open>
  \<open>uploadFileParallel\<close>: \<open>numWorkers = 8\<close>,
  \<open>chunkSize := (fileSize + int64(numWorkers) - 1) / int64(numWorkers)\<close>, raised to
  \<open>defaultChunkSize\<close> when smaller, and
  \<open>numChunks := (fileSize + chunkSize - 1) / chunkSize\<close>.
\<close>

definition uploadFileParallel_chunkSize :: "int \<Rightarrow> int" where
  "uploadFileParallel_chunkSize fileSize =
     (let numWorkers = 8;
          chunkSize = quot (i64 (i64 (fileSize + numWorkers) - 1)) numWorkers
      in if chunkSize < defaultChunkSize then defaultChunkSize else chunkSize)"

definition uploadFileParallel_numChunks :: "int \<Rightarrow> int" where
  "uploadFileParallel_numChunks fileSize =
     (let chunkSize = uploadFileParallel_chunkSize fileSize
      in quot (i64 (i64 (fileSize + chunkSize) - 1)) chunkSize)"

text \<open>
  The body of one worker: \<open>start := chunkIndex * chunkSize\<close>,
  \<open>end := start + chunkSize\<close>, and \<open>end = fileSize\<close> when \<open>end > fileSize\<close>.
\<close>

definition chunkBounds :: "int \<Rightarrow> int \<Rightarrow> int \<Rightarrow> int \<times> int" where
  "chunkBounds fileSize chunkSize chunkIndex =
     (let start = i64 (chunkIndex * chunkSize);
          end0 = i64 (start + chunkSize)
      in (start, if end0 > fileSize then fileSize else end0))"

text \<open>
  \<open>results := make(chan chunkResult, numChunks)\<close> panics at run time when
  \<open>numChunks\<close> is negative (\<open>None\<close>). Otherwise the loop
  \<open>for i := int64(0); i < numChunks; i++\<close> starts one worker per index; the list
  of their ranges is in index order.
\<close>

definition uploadFileParallel_chunks :: "int \<Rightarrow> (int \<times> int) list option" where
  "uploadFileParallel_chunks fileSize =
     (let chunkSize = uploadFileParallel_chunkSize fileSize;
          numChunks = uploadFileParallel_numChunks fileSize
      in if numChunks < 0 then None
         else Some (map (\<lambda>i. chunkBounds fileSize chunkSize (int i)) [0 ..< nat numChunks]))"

text \<open>\<open>downloadFileParallel\<close> repeats the computation with \<open>maxWorkers = 8\<close>.\<close>

definition downloadFileParallel_chunkSize :: "int \<Rightarrow> int" where
  "downloadFileParallel_chunkSize fileSize =
     (let maxWorkers = 8;
          chunkSize = quot (i64 (i64 (fileSize + maxWorkers) - 1)) maxWorkers
      in if chunkSize < defaultChunkSize then defaultChunkSize else chunkSize)"

definition downloadFileParallel_numChunks :: "int \<Rightarrow> int" where
  "downloadFileParallel_numChunks fileSize =
     (let chunkSize = downloadFileParallel_chunkSize fileSize
      in quot (i64 (i64 (fileSize + chunkSize) - 1)) chunkSize)"

definition downloadFileParallel_chunks :: "int \<Rightarrow> (int \<times> int) list option" where
  "downloadFileParallel_chunks fileSize =
     (let chunkSize = downloadFileParallel_chunkSize fileSize;
          numChunks = downloadFileParallel_numChunks fileSize
      in if numChunks < 0 then None
         else Some (map (\<lambda>i. chunkBounds fileSize chunkSize (int i)) [0 ..< nat numChunks]))"

text \<open>
  \<open>tiles a rs b\<close>: the half-open ranges \<open>rs\<close>, read in order, cover \<open>[a, b)\<close> with
  each range starting where the previous one ended and none of them empty.
\<close>

fun tiles :: "int \<Rightarrow> (int \<times> int) list \<Rightarrow> int \<Rightarrow> bool" where
  "tiles a [] b = (a = b)"
| "tiles a ((s, e) # rs) b = (s = a \<and> s < e \<and> tiles e rs b)"

text \<open>The chunk plan as the specification words it.\<close>

definition spec_chunkSize :: "int \<Rightarrow> int" where
  "spec_chunkSize S = max ((S + 7) div 8) defaultChunkSize"

definition spec_numChunks :: "int \<Rightarrow> int" where
  "spec_numChunks S = (S + spec_chunkSize S - 1) div spec_chunkSize S"

definition spec_chunks :: "int \<Rightarrow> (int \<times> int) list" where
  "spec_chunks S =
     map (\<lambda>i. (int i * spec_chunkSize S, min ((int i + 1) * spec_chunkSize S) S))
         [0 ..< nat (spec_numChunks S)]"

section \<open>Key derivation and cipher block (common/kcp.go)\<close>

text \<open>
  Go strings and byte slices are sequences of bytes: both are \<open>string\<close> here. The
  primitives of the cryptographic libraries are parameters of the model: the SHA-256
  digest, and \<open>pbkdf2.Key(password, salt, iter, keyLen, h)\<close>.
\<close>

datatype hashAlg = SHA1 | SHA256

record cryptoLib =
  sha256_Sum256 :: "string \<Rightarrow> string"
  pbkdf2_Key :: "string \<Rightarrow> string \<Rightarrow> int \<Rightarrow> int \<Rightarrow> hashAlg \<Rightarrow> string"

datatype keyError = EncryptionKeyRequired | KeySizeError nat

datatype blockCrypt = AESBlockCrypt string

definition Salt :: string where
  "Salt = ''kcp-file-transfer''"

text \<open>\<open>fmt.Sprintf("%x", hash)\<close>: two lower-case hexadecimal digits per byte.\<close>

definition hexDigit :: "nat \<Rightarrow> char" where
  "hexDigit n = ''0123456789abcdef'' ! (n mod 16)"

definition hexByte :: "char \<Rightarrow> string" where
  "hexByte c = [hexDigit (of_char c div 16), hexDigit (of_char c mod 16)]"

definition hexEncode :: "string \<Rightarrow> string" where
  "hexEncode bs = concat (map hexByte bs)"

definition hashKey :: "cryptoLib \<Rightarrow> string \<Rightarrow> string" where
  "hashKey lib key = hexEncode (sha256_Sum256 lib key)"

definition ValidateKey :: "string \<Rightarrow> keyError option" where
  "ValidateKey key = (if key = [] then Some EncryptionKeyRequired else None)"

text \<open>
  \<open>kcp.NewAESBlockCrypt(key)\<close> is \<open>aes.NewCipher(key)\<close>, which accepts keys of 16, 24
  and 32 bytes and returns a \<open>KeySizeError\<close> for any other length.
\<close>

definition NewAESBlockCrypt :: "string \<Rightarrow> keyError + blockCrypt" where
  "NewAESBlockCrypt key =
     (if length key = 16 \<or> length key = 24 \<or> length key = 32
      then Inr (AESBlockCrypt key) else Inl (KeySizeError (length key)))"

definition GetBlockCrypt :: "cryptoLib \<Rightarrow> string \<Rightarrow> keyError + blockCrypt" where
  "GetBlockCrypt lib key =
     (case ValidateKey key of
        Some err \<Rightarrow> Inl err
      | None \<Rightarrow>
          let hashedKey = hashKey lib key;
              pass = pbkdf2_Key lib hashedKey Salt 4096 32 SHA256
          in NewAESBlockCrypt pass)"

text \<open>The library contract used: PBKDF2 returns exactly \<open>keyLen\<close> bytes.\<close>

definition pbkdf2_length_ok :: "cryptoLib \<Rightarrow> bool" where
  "pbkdf2_length_ok lib =
     (\<forall>password salt iter keyLen h. 0 \<le> keyLen \<longrightarrow>
        length (pbkdf2_Key lib password salt iter keyLen h) = nat keyLen)"

text \<open>A stand-in library for evaluating the model on concrete inputs.\<close>

definition sampleLib :: cryptoLib where
  "sampleLib = \<lparr> sha256_Sum256 = (\<lambda>s. take 32 (s @ replicate 32 (CHR ''z''))),
              pbkdf2_Key = (\<lambda>password salt iter keyLen h.
                 take (nat keyLen) (password @ replicate (nat keyLen) (CHR ''k''))) \<rparr>"

section \<open>Paths on a Unix host (path.Clean, filepath.Join, filepath.Abs, filepath.Dir)\<close>

text \<open>
  The server's path handling rests on Go's standard library. Its functions are modelled
  by their documented rules, for a host whose separator is the slash (where
  \<open>filepath.FromSlash\<close> and \<open>filepath.ToSlash\<close> are the identity and \<open>filepath.Clean\<close>
  is \<open>path.Clean\<close>).
\<close>

fun splitSlash :: "string \<Rightarrow> string list" where
  "splitSlash [] = [[]]"
| "splitSlash (c # cs) =
     (if c = CHR ''/'' then [] # splitSlash cs
      else (case splitSlash cs of [] \<Rightarrow> [[c]] | e # es \<Rightarrow> (c # e) # es))"

fun joinSlash :: "string list \<Rightarrow> string" where
  "joinSlash [] = []"
| "joinSlash [e] = e"
| "joinSlash (e # es) = e @ ''/'' @ joinSlash es"

text \<open>
  \<open>path.Clean\<close>: empty and \<open>.\<close> elements are dropped; a \<open>..\<close> element removes the
  element before it, is dropped at the root of a rooted path, and is kept at the start of
  a relative one. The stack holds the elements kept so far, the last one first.
\<close>

fun cleanStep :: "bool \<Rightarrow> string list \<Rightarrow> string \<Rightarrow> string list" where
  "cleanStep rooted st e =
     (if e = [] \<or> e = ''.'' then st
      else if e = ''..'' then
        (case st of
           [] \<Rightarrow> if rooted then [] else [''..'']
         | t # ts \<Rightarrow> if t = ''..'' then ''..'' # st else ts)
      else e # st)"

definition path_Clean :: "string \<Rightarrow> string" where
  "path_Clean p =
     (if p = [] then ''.''
      else let rooted = (hd p = CHR ''/'');
               st = foldl (cleanStep rooted) [] (splitSlash p);
               out = (if rooted then ''/'' else []) @ joinSlash (rev st)
           in if out = [] then ''.'' else out)"

text \<open>
  \<open>filepath.Join\<close> skips leading empty elements, joins the rest with slashes and cleans
  the result; it returns the empty string when every element is empty.
\<close>

definition filepath_Join :: "string list \<Rightarrow> string" where
  "filepath_Join elems =
     (case dropWhile (\<lambda>e. e = []) elems of
        [] \<Rightarrow> []
      | es \<Rightarrow> path_Clean (joinSlash es))"

definition filepath_IsAbs :: "string \<Rightarrow> bool" where
  "filepath_IsAbs p = (p \<noteq> [] \<and> hd p = CHR ''/'')"

text \<open>
  \<open>filepath.Abs\<close> cleans an absolute path and joins a relative one to the working
  directory; it fails when the working directory cannot be determined (\<open>None\<close>).
\<close>

definition filepath_Abs :: "string option \<Rightarrow> string \<Rightarrow> string option" where
  "filepath_Abs cwd p =
     (if filepath_IsAbs p then Some (path_Clean p)
      else (case cwd of None \<Rightarrow> None | Some wd \<Rightarrow> Some (filepath_Join [wd, p])))"

text \<open>\<open>filepath.Dir\<close>: everything up to the last slash, cleaned.\<close>

definition filepath_Dir :: "string \<Rightarrow> string" where
  "filepath_Dir p = path_Clean (rev (dropWhile (\<lambda>c. c \<noteq> CHR ''/'') (rev p)))"

text \<open>\<open>filepath.Ext\<close>: the suffix of the last element from its last dot on.\<close>

fun extOf :: "string \<Rightarrow> string \<Rightarrow> string" where
  "extOf acc [] = []"
| "extOf acc (c # cs) =
     (if c = CHR ''/'' then []
      else if c = CHR ''.'' then c # acc
      else extOf (c # acc) cs)"

definition filepath_Ext :: "string \<Rightarrow> string" where
  "filepath_Ext p = extOf [] (rev p)"

definition hasPrefix :: "string \<Rightarrow> string \<Rightarrow> bool" where
  "hasPrefix s pre = (take (length pre) s = pre)"

definition hasSuffix :: "string \<Rightarrow> string \<Rightarrow> bool" where
  "hasSuffix s suf = (length suf \<le> length s \<and> drop (length s - length suf) s = suf)"

definition trimPrefix :: "string \<Rightarrow> string \<Rightarrow> string" where
  "trimPrefix s pre = (if hasPrefix s pre then drop (length pre) s else s)"

fun containsStr :: "string \<Rightarrow> string \<Rightarrow> bool" where
  "containsStr [] sub = (sub = [])"
| "containsStr (c # cs) sub = (hasPrefix (c # cs) sub \<or> containsStr cs sub)"

section \<open>File system\<close>

text \<open>
  The state a handler runs on: a table from path strings to nodes, the list of calls made
  on it so far, a fault oracle (a call the oracle marks fails with an I/O error and
  changes nothing), and the keys of the per-file lock table \<open>fileLocks\<close> that the
  upload handler owns. The table of nodes is flat: creating a file does not require its
  parent directory, and \<open>MkdirAll\<close> records the directory itself. Paths are compared as
  strings; the callers below always pass cleaned paths. Symbolic links are not modelled.
\<close>

datatype node = File string | Dir

datatype accessMode = O_RDONLY | O_WRONLY | O_RDWR

datatype fsCall =
    Stat string
  | Remove string
  | RemoveAll string
  | MkdirAll string
  | Rename string string
  | Chmod string nat
  | ReadDir string
  | WalkDir string
  | ReadFile string
  | WriteFile string string
  | OpenFile string accessMode bool bool
  | Seek string int
  | WriteAt string int string
  | Sync string
  | Fstat string
  | CreateArchive string string "string list"
  | ExtractArchive string string string

datatype fsErr = ErrNotExist | ErrOther

datatype fsVal = VUnit | VInfo bool nat | VData string

record fsys =
  nodes :: "(string \<times> node) list"
  calls :: "fsCall list"
  faulty :: "fsCall \<Rightarrow> bool"
  fileLocks :: "string list"

definition lookup :: "(string \<times> node) list \<Rightarrow> string \<Rightarrow> node option" where
  "lookup ns p = map_of ns p"

definition del :: "(string \<times> node) list \<Rightarrow> string \<Rightarrow> (string \<times> node) list" where
  "del ns p = filter (\<lambda>kv. fst kv \<noteq> p) ns"

definition put :: "(string \<times> node) list \<Rightarrow> string \<Rightarrow> node \<Rightarrow> (string \<times> node) list" where
  "put ns p n = (p, n) # del ns p"

definition below :: "string \<Rightarrow> string \<Rightarrow> bool" where
  "below p q = hasPrefix q (p @ ''/'')"

definition delTree :: "(string \<times> node) list \<Rightarrow> string \<Rightarrow> (string \<times> node) list" where
  "delTree ns p = filter (\<lambda>kv. fst kv \<noteq> p \<and> \<not> below p (fst kv)) ns"

definition hasChildren :: "(string \<times> node) list \<Rightarrow> string \<Rightarrow> bool" where
  "hasChildren ns p = list_ex (\<lambda>kv. below p (fst kv)) ns"

text \<open>
  Writing \<open>d\<close> at offset \<open>off\<close> of a file with content \<open>c\<close>: a gap between the end of
  the file and the offset reads as zero bytes.
\<close>

definition writeAt :: "string \<Rightarrow> nat \<Rightarrow> string \<Rightarrow> string" where
  "writeAt c off d =
     take off c @ replicate (off - length c) (CHR 0x00) @ d @ drop (off + length d) c"

text \<open>The effect of one call on the table, and its result.\<close>

fun fsApply :: "fsCall \<Rightarrow> (string \<times> node) list \<Rightarrow> (fsErr + fsVal) \<times> (string \<times> node) list" where
  "fsApply (Stat p) ns =
     (case lookup ns p of
        None \<Rightarrow> (Inl ErrNotExist, ns)
      | Some (File c) \<Rightarrow> (Inr (VInfo False (length c)), ns)
      | Some Dir \<Rightarrow> (Inr (VInfo True 0), ns))"
| "fsApply (Fstat p) ns =
     (case lookup ns p of
        None \<Rightarrow> (Inl ErrNotExist, ns)
      | Some (File c) \<Rightarrow> (Inr (VInfo False (length c)), ns)
      | Some Dir \<Rightarrow> (Inr (VInfo True 0), ns))"
| "fsApply (Remove p) ns =
     (case lookup ns p of
        None \<Rightarrow> (Inl ErrNotExist, ns)
      | Some (File c) \<Rightarrow> (Inr VUnit, del ns p)
      | Some Dir \<Rightarrow> if hasChildren ns p then (Inl ErrOther, ns) else (Inr VUnit, del ns p))"
| "fsApply (RemoveAll p) ns = (Inr VUnit, delTree ns p)"
| "fsApply (MkdirAll p) ns =
     (case lookup ns p of
        None \<Rightarrow> (Inr VUnit, put ns p Dir)
      | Some (File c) \<Rightarrow> (Inl ErrOther, ns)
      | Some Dir \<Rightarrow> (Inr VUnit, ns))"
| "fsApply (Rename p q) ns =
     (case lookup ns p of
        None \<Rightarrow> (Inl ErrNotExist, ns)
      | Some n \<Rightarrow>
          (case (n, lookup ns q) of
             (File c, Some Dir) \<Rightarrow> (Inl ErrOther, ns)
           | (Dir, Some (File c)) \<Rightarrow> (Inl ErrOther, ns)
           | (Dir, _) \<Rightarrow>
               if hasChildren ns p \<or> hasChildren ns q then (Inl ErrOther, ns)
               else (Inr VUnit, put (del ns p) q n)
           | (File c, _) \<Rightarrow> (Inr VUnit, put (del ns p) q n)))"
| "fsApply (Chmod p m) ns =
     (case lookup ns p of None \<Rightarrow> (Inl ErrNotExist, ns) | Some n \<Rightarrow> (Inr VUnit, ns))"
| "fsApply (ReadDir p) ns =
     (case lookup ns p of
        None \<Rightarrow> (Inl ErrNotExist, ns)
      | Some (File c) \<Rightarrow> (Inl ErrOther, ns)
      | Some Dir \<Rightarrow> (Inr VUnit, ns))"
| "fsApply (WalkDir p) ns =
     (case lookup ns p of None \<Rightarrow> (Inl ErrNotExist, ns) | Some n \<Rightarrow> (Inr VUnit, ns))"
| "fsApply (ReadFile p) ns =
     (case lookup ns p of
        None \<Rightarrow> (Inl ErrNotExist, ns)
      | Some (File c) \<Rightarrow> (Inr (VData c), ns)
      | Some Dir \<Rightarrow> (Inl ErrOther, ns))"
| "fsApply (WriteFile p d) ns =
     (case lookup ns p of
        Some Dir \<Rightarrow> (Inl ErrOther, ns)
      | _ \<Rightarrow> (Inr VUnit, put ns p (File d)))"
| "fsApply (OpenFile p m create trunc) ns =
     (case lookup ns p of
        None \<Rightarrow> if create then (Inr VUnit, put ns p (File [])) else (Inl ErrNotExist, ns)
      | Some (File c) \<Rightarrow> if trunc then (Inr VUnit, put ns p (File [])) else (Inr VUnit, ns)
      | Some Dir \<Rightarrow> if m = O_RDONLY then (Inr VUnit, ns) else (Inl ErrOther, ns))"
| "fsApply (Seek p off) ns = (if off < 0 then (Inl ErrOther, ns) else (Inr VUnit, ns))"
| "fsApply (WriteAt p off d) ns =
     (case lookup ns p of
        Some (File c) \<Rightarrow>
          if off < 0 then (Inl ErrOther, ns)
          else (Inr VUnit, put ns p (File (writeAt c (nat off) d)))
      | _ \<Rightarrow> (Inl ErrOther, ns))"
| "fsApply (Sync p) ns = (Inr VUnit, ns)"
| "fsApply (CreateArchive fmt out srcs) ns =
     (case lookup ns out of
        Some Dir \<Rightarrow> (Inl ErrOther, ns)
      | _ \<Rightarrow> if list_all (\<lambda>src. lookup ns src \<noteq> None) srcs
             then (Inr VUnit, put ns out (File []))
             else (Inl ErrOther, put ns out (File [])))"
| "fsApply (ExtractArchive kind archive dest) ns =
     (case lookup ns archive of
        Some (File c) \<Rightarrow> (Inr VUnit, ns)
      | _ \<Rightarrow> (Inl ErrOther, ns))"

definition fsExec :: "fsCall \<Rightarrow> fsys \<Rightarrow> (fsErr + fsVal) \<times> fsys" where
  "fsExec c s =
     (let s1 = s\<lparr>calls := calls s @ [c]\<rparr>
      in if faulty s c then (Inl ErrOther, s1)
         else (case fsApply c (nodes s) of (r, ns) \<Rightarrow> (r, s1\<lparr>nodes := ns\<rparr>)))"

text \<open>\<open>getLock\<close>: \<open>fileLocks.LoadOrStore(path, &sync.Mutex{})\<close>.\<close>

definition getLock :: "string \<Rightarrow> fsys \<Rightarrow> fsys" where
  "getLock p s = (if p \<in> set (fileLocks s) then s else s\<lparr>fileLocks := p # fileLocks s\<rparr>)"

section \<open>Server transfer endpoint (server/handlers, server/main.go)\<close>

text \<open>
  A request as the handlers read it: method, URL path, query parameters and headers
  (absent ones read as the empty string), the body, the declared content length, and
  whether reading the body ends in an error instead of end-of-file. Of a response the
  status code, the body and the content length are kept; the JSON bodies of the list and
  stat actions and the byte counts reported by a successful upload are not modelled.
\<close>

record request =
  reqMethod :: string
  urlPath :: string
  query :: "string \<Rightarrow> string"
  header :: "string \<Rightarrow> string"
  reqBody :: string
  reqLen :: int
  bodyFails :: bool

record response =
  statusCode :: nat
  respBody :: string
  respLen :: int

record srvEnv =
  rootDir :: string
  workDir :: "string option"
  hashLib :: cryptoLib

text \<open>
  \<open>http.Error(w, msg, code)\<close> writes the message followed by a newline. Where the
  source appends the operating system's error text to a message, only the fixed part of
  the message is kept.
\<close>

definition httpError :: "string \<Rightarrow> nat \<Rightarrow> response" where
  "httpError msg code =
     \<lparr> statusCode = code, respBody = msg @ [CHR 0x0A], respLen = int (length msg) + 1 \<rparr>"

definition httpOK :: "nat \<Rightarrow> string \<Rightarrow> response" where
  "httpOK code b = \<lparr> statusCode = code, respBody = b, respLen = int (length b) \<rparr>"

subsection \<open>Path safety\<close>

definition cleanRelPath :: "string \<Rightarrow> string" where
  "cleanRelPath rel =
     (if rel = [] then []
      else let clean = trimPrefix (path_Clean (''/'' @ rel)) ''/''
           in if hasPrefix clean ''..'' \<or> containsStr clean ''/../'' then [] else clean)"

definition isPathSafe :: "srvEnv \<Rightarrow> string \<Rightarrow> string \<times> bool" where
  "isPathSafe env requestPath =
     (let cleanPath = path_Clean (''/'' @ requestPath);
          fullPath = filepath_Join [rootDir env, cleanPath]
      in case filepath_Abs (workDir env) (rootDir env) of
           None \<Rightarrow> ([], False)
         | Some absRoot \<Rightarrow>
             (case filepath_Abs (workDir env) fullPath of
                None \<Rightarrow> ([], False)
              | Some absPath \<Rightarrow>
                  if \<not> hasPrefix absPath (absRoot @ ''/'') \<and> absPath \<noteq> absRoot
                  then ([], False)
                  else (fullPath, True)))"

subsection \<open>Parsing\<close>

definition isSpaceChar :: "char \<Rightarrow> bool" where
  "isSpaceChar c = (c = CHR '' '' \<or> c = CHR 0x09 \<or> c = CHR 0x0D)"

definition isDigit :: "char \<Rightarrow> bool" where
  "isDigit c = (48 \<le> (of_char c :: nat) \<and> (of_char c :: nat) \<le> 57)"

definition digitVal :: "char \<Rightarrow> int" where
  "digitVal c = int (of_char c) - 48"

definition decimal :: "string \<Rightarrow> int" where
  "decimal ds = foldl (\<lambda>acc c. acc * 10 + digitVal c) 0 ds"

text \<open>
  The \<open>%d\<close> verb of \<open>fmt.Sscanf\<close>: leading spaces are skipped, a sign is accepted, and
  the digits that follow must fit an \<open>int64\<close>.
\<close>

definition scanInt :: "string \<Rightarrow> (int \<times> string) option" where
  "scanInt s =
     (let s1 = dropWhile isSpaceChar s;
          neg = (s1 \<noteq> [] \<and> hd s1 = CHR ''-'');
          s2 = (if s1 \<noteq> [] \<and> (hd s1 = CHR ''-'' \<or> hd s1 = CHR ''+'') then tl s1 else s1);
          ds = takeWhile isDigit s2;
          v = (if neg then - decimal ds else decimal ds)
      in if ds = [] \<or> v < - (2 ^ 63) \<or> 2 ^ 63 \<le> v then None
         else Some (v, dropWhile isDigit s2))"

definition expectChar :: "char \<Rightarrow> string \<Rightarrow> string option" where
  "expectChar c s = (case s of [] \<Rightarrow> None | x # xs \<Rightarrow> if x = c then Some xs else None)"

text \<open>\<open>fmt.Sscanf(contentRange, "bytes %d-%d/%d", &start, &end, &total)\<close>.\<close>

definition sscanfContentRange :: "string \<Rightarrow> (int \<times> int \<times> int) option" where
  "sscanfContentRange s =
     (if \<not> hasPrefix s ''bytes'' then None
      else case scanInt (drop 5 s) of
        None \<Rightarrow> None
      | Some (start, r1) \<Rightarrow>
          (case expectChar (CHR ''-'') r1 of
             None \<Rightarrow> None
           | Some r2 \<Rightarrow>
               (case scanInt r2 of
                  None \<Rightarrow> None
                | Some (end0, r3) \<Rightarrow>
                    (case expectChar (CHR ''/'') r3 of
                       None \<Rightarrow> None
                     | Some r4 \<Rightarrow>
                         (case scanInt r4 of
                            None \<Rightarrow> None
                          | Some (tot, r5) \<Rightarrow> Some (start, end0, tot))))))"

text \<open>\<open>strconv.ParseUint(modeStr, 8, 32)\<close>.\<close>

definition isOctal :: "char \<Rightarrow> bool" where
  "isOctal c = (48 \<le> (of_char c :: nat) \<and> (of_char c :: nat) \<le> 55)"

definition parseOctal32 :: "string \<Rightarrow> nat option" where
  "parseOctal32 s =
     (let v = foldl (\<lambda>acc c. acc * 8 + digitVal c) 0 s
      in if s = [] \<or> \<not> list_all isOctal s \<or> 4294967296 \<le> v then None else Some (nat v))"

fun splitComma :: "string \<Rightarrow> string list" where
  "splitComma [] = [[]]"
| "splitComma (c # cs) =
     (if c = CHR '','' then [] # splitComma cs
      else (case splitComma cs of [] \<Rightarrow> [[c]] | e # es \<Rightarrow> (c # e) # es))"

definition isTrimSpace :: "char \<Rightarrow> bool" where
  "isTrimSpace c = (c = CHR '' '' \<or> c = CHR 0x09 \<or> c = CHR 0x0A \<or> c = CHR 0x0B
                   \<or> c = CHR 0x0C \<or> c = CHR 0x0D)"

definition trimSpace :: "string \<Rightarrow> string" where
  "trimSpace s = rev (dropWhile isTrimSpace (rev (dropWhile isTrimSpace s)))"

definition toLowerChar :: "char \<Rightarrow> char" where
  "toLowerChar c =
     (if 65 \<le> (of_char c :: nat) \<and> (of_char c :: nat) \<le> 90
      then char_of (of_char c + (32::nat)) else c)"

subsection \<open>FileHandler (file_handler.go)\<close>

datatype listError = ErrPermission | ErrIO fsErr

text \<open>
  \<open>ListFiles\<close>: the directory is read with \<open>os.ReadDir\<close>, or walked with
  \<open>filepath.WalkDir\<close> when \<open>recursive\<close> is set; either call covers the entries below
  the target.
\<close>

definition ListFiles :: "srvEnv \<Rightarrow> string \<Rightarrow> bool \<Rightarrow> fsys \<Rightarrow> listError option \<times> fsys" where
  "ListFiles env rel0 recursive s =
     (let rel = cleanRelPath rel0
      in case isPathSafe env rel of
           (target, safe) \<Rightarrow>
             if \<not> safe then (Some ErrPermission, s)
             else if recursive then
               (case fsExec (WalkDir target) s of
                  (Inl e, s1) \<Rightarrow> (Some (ErrIO e), s1)
                | (Inr v, s1) \<Rightarrow> (None, s1))
             else
               (case fsExec (ReadDir target) s of
                  (Inl e, s1) \<Rightarrow> (Some (ErrIO e), s1)
                | (Inr v, s1) \<Rightarrow> (None, s1)))"

definition HandleList :: "srvEnv \<Rightarrow> request \<Rightarrow> fsys \<Rightarrow> response \<times> fsys" where
  "HandleList env r s =
     (let rel = query r ''path'';
          recursive = (query r ''recursive'' = ''1'')
      in case ListFiles env rel recursive s of
           (Some err, s1) \<Rightarrow> (httpError ''Cannot list files'' 500, s1)
         | (None, s1) \<Rightarrow> (httpOK 200 [], s1))"

definition HandleDelete :: "srvEnv \<Rightarrow> request \<Rightarrow> fsys \<Rightarrow> response \<times> fsys" where
  "HandleDelete env r s =
     (if reqMethod r \<noteq> ''DELETE'' then (httpError ''Method not allowed'' 405, s)
      else let filePath = query r ''path''
      in case isPathSafe env filePath of
           (cleanPath, safe) \<Rightarrow>
             if \<not> safe then (httpError ''Invalid path'' 400, s)
             else
               (case fsExec (Stat cleanPath) s of
                  (Inl e, s1) \<Rightarrow>
                    if e = ErrNotExist then (httpError ''File not found'' 404, s1)
                    else (httpError [] 500, s1)
                | (Inr info, s1) \<Rightarrow>
                    (case fsExec (case info of VInfo True n \<Rightarrow> RemoveAll cleanPath
                                            | _ \<Rightarrow> Remove cleanPath) s1 of
                       (Inl e, s2) \<Rightarrow> (httpError ''Failed to delete'' 500, s2)
                     | (Inr v, s2) \<Rightarrow> (httpOK 200 ''OK'', s2))))"

definition HandleMkdir :: "srvEnv \<Rightarrow> request \<Rightarrow> fsys \<Rightarrow> response \<times> fsys" where
  "HandleMkdir env r s =
     (if reqMethod r \<noteq> ''POST'' then (httpError ''Method not allowed'' 405, s)
      else let dirPath = query r ''path''
      in case isPathSafe env dirPath of
           (cleanPath, safe) \<Rightarrow>
             if \<not> safe then (httpError ''Invalid path'' 400, s)
             else
               (case fsExec (MkdirAll cleanPath) s of
                  (Inl e, s1) \<Rightarrow> (httpError ''Failed to create directory'' 500, s1)
                | (Inr v, s1) \<Rightarrow> (httpOK 201 ''OK'', s1)))"

definition HandleRename :: "srvEnv \<Rightarrow> request \<Rightarrow> fsys \<Rightarrow> response \<times> fsys" where
  "HandleRename env r s =
     (if reqMethod r \<noteq> ''POST'' then (httpError ''Method not allowed'' 405, s)
      else let oldPath = query r ''old''; newPath = query r ''new''
      in if oldPath = [] \<or> newPath = [] then (httpError ''Missing old or new path'' 400, s)
         else case isPathSafe env oldPath of
           (cleanOldPath, safe) \<Rightarrow>
             if \<not> safe then (httpError ''Invalid old path'' 400, s)
             else
               (case isPathSafe env newPath of
                  (cleanNewPath, safe2) \<Rightarrow>
                    if \<not> safe2 then (httpError ''Invalid new path'' 400, s)
                    else
                      (case fsExec (Stat cleanOldPath) s of
                         (Inl e, s1) \<Rightarrow>
                           if e = ErrNotExist then (httpError ''Source not found'' 404, s1)
                           else (httpError [] 500, s1)
                       | (Inr info, s1) \<Rightarrow>
                           (case fsExec (Rename cleanOldPath cleanNewPath) s1 of
                              (Inl e, s2) \<Rightarrow> (httpError ''Failed to rename'' 500, s2)
                            | (Inr v, s2) \<Rightarrow> (httpOK 200 ''OK'', s2)))))"

definition HandleStat :: "srvEnv \<Rightarrow> request \<Rightarrow> fsys \<Rightarrow> response \<times> fsys" where
  "HandleStat env r s =
     (if reqMethod r \<noteq> ''GET'' then (httpError ''Method not allowed'' 405, s)
      else let filePath = query r ''path''
      in if filePath = [] then (httpError ''Missing path parameter'' 400, s)
         else case isPathSafe env filePath of
           (cleanPath, safe) \<Rightarrow>
             if \<not> safe then (httpError ''Invalid path'' 400, s)
             else
               (case fsExec (Stat cleanPath) s of
                  (Inl e, s1) \<Rightarrow>
                    if e = ErrNotExist then (httpError ''File not found'' 404, s1)
                    else (httpError [] 500, s1)
                | (Inr info, s1) \<Rightarrow> (httpOK 200 [], s1)))"

definition HandleChmod :: "srvEnv \<Rightarrow> request \<Rightarrow> fsys \<Rightarrow> response \<times> fsys" where
  "HandleChmod env r s =
     (if reqMethod r \<noteq> ''POST'' then (httpError ''Method not allowed'' 405, s)
      else let filePath = query r ''path''; modeStr = query r ''mode''
      in if filePath = [] \<or> modeStr = [] then (httpError ''Missing path or mode parameter'' 400, s)
         else case isPathSafe env filePath of
           (cleanPath, safe) \<Rightarrow>
             if \<not> safe then (httpError ''Invalid path'' 400, s)
             else
               (case parseOctal32 modeStr of
                  None \<Rightarrow> (httpError ''Invalid mode format (use octal like 755)'' 400, s)
                | Some mode \<Rightarrow>
                    (case fsExec (Stat cleanPath) s of
                       (Inl e, s1) \<Rightarrow>
                         if e = ErrNotExist then (httpError ''File not found'' 404, s1)
                         else (httpError [] 500, s1)
                     | (Inr info, s1) \<Rightarrow>
                         (case fsExec (Chmod cleanPath mode) s1 of
                            (Inl e, s2) \<Rightarrow> (httpError ''Failed to change permissions'' 500, s2)
                          | (Inr v, s2) \<Rightarrow> (httpOK 200 ''OK'', s2)))))"

subsection \<open>CompressHandler (compress_handler.go)\<close>

text \<open>
  The archive writers and readers of package \<open>compress\<close> are single calls on the file
  system here: \<open>CreateArchive\<close> names the format, the output and the sources,
  \<open>ExtractArchive\<close> the reader, the archive and the destination.
\<close>

definition validSources :: "srvEnv \<Rightarrow> string list \<Rightarrow> string list" where
  "validSources env sourcePaths =
     concat (map (\<lambda>p0. let p = trimSpace p0
                        in if p = [] then []
                           else (case isPathSafe env p of
                                   (cleanPath, safe) \<Rightarrow> if safe then [cleanPath] else []))
                 sourcePaths)"

definition HandleCompress :: "srvEnv \<Rightarrow> request \<Rightarrow> fsys \<Rightarrow> response \<times> fsys" where
  "HandleCompress env r s =
     (if reqMethod r \<noteq> ''POST'' then (httpError ''Method not allowed'' 405, s)
      else let paths = query r ''paths''; outputPath = query r ''output'';
               format = (if query r ''format'' = [] then ''zip'' else query r ''format'')
      in if paths = [] \<or> outputPath = [] then (httpError ''Missing paths or output parameter'' 400, s)
         else case isPathSafe env outputPath of
           (cleanOutputPath, safe) \<Rightarrow>
             if \<not> safe then (httpError ''Invalid output path'' 400, s)
             else let validPaths = validSources env (splitComma paths)
             in if validPaths = [] then (httpError ''No valid source paths'' 400, s)
                else
                  (case fsExec (MkdirAll (filepath_Dir cleanOutputPath)) s of
                     (Inl e, s1) \<Rightarrow> (httpError ''Failed to create output directory'' 500, s1)
                   | (Inr v, s1) \<Rightarrow>
                       if format = ''gzip'' \<and> length validPaths \<noteq> 1
                       then (httpError ''Gzip only supports single file'' 400, s1)
                       else if format \<noteq> ''zip'' \<and> format \<noteq> ''tar'' \<and> format \<noteq> ''targz''
                               \<and> format \<noteq> ''tar.gz'' \<and> format \<noteq> ''gzip''
                       then (httpError (''Unsupported format: '' @ format) 400, s1)
                       else
                         (case fsExec (CreateArchive
                                         (if format = ''tar.gz'' then ''targz'' else format)
                                         cleanOutputPath validPaths) s1 of
                            (Inl e, s2) \<Rightarrow> (httpError ''Compression failed'' 500, s2)
                          | (Inr v2, s2) \<Rightarrow> (httpOK 200 ''OK'', s2))))"

definition HandleExtract :: "srvEnv \<Rightarrow> request \<Rightarrow> fsys \<Rightarrow> response \<times> fsys" where
  "HandleExtract env r s =
     (if reqMethod r \<noteq> ''POST'' then (httpError ''Method not allowed'' 405, s)
      else let archivePath = query r ''path''
      in if archivePath = [] then (httpError ''Missing path parameter'' 400, s)
         else case isPathSafe env archivePath of
           (cleanArchivePath, safe) \<Rightarrow>
             if \<not> safe then (httpError ''Invalid archive path'' 400, s)
             else let destPath =
                        (if query r ''dest'' = []
                         then take (length archivePath - length (filepath_Ext archivePath)) archivePath
                         else query r ''dest'')
             in case isPathSafe env destPath of
               (cleanDestPath, safe2) \<Rightarrow>
                 if \<not> safe2 then (httpError ''Invalid destination path'' 400, s)
                 else
                   (case fsExec (MkdirAll cleanDestPath) s of
                      (Inl e, s1) \<Rightarrow> (httpError ''Failed to create destination directory'' 500, s1)
                    | (Inr v, s1) \<Rightarrow>
                        let ext = map toLowerChar (filepath_Ext cleanArchivePath)
                        in if ext = ''.zip'' \<or> ext = ''.tar'' \<or> ext = ''.gz'' \<or> ext = ''.tgz'' then
                             (case fsExec (ExtractArchive (if ext = ''.zip'' then ''zip'' else ''tar'')
                                             cleanArchivePath cleanDestPath) s1 of
                                (Inl e, s2) \<Rightarrow> (httpError ''Extraction failed'' 500, s2)
                              | (Inr v2, s2) \<Rightarrow> (httpOK 200 ''OK'', s2))
                           else (httpError (''Unsupported archive format: '' @ ext) 400, s1)))"

subsection \<open>EditHandler (edit_handler.go)\<close>

definition maxEditSize :: int where
  "maxEditSize = 1 * 1024 * 1024"

definition HandleGetFile :: "srvEnv \<Rightarrow> request \<Rightarrow> fsys \<Rightarrow> response \<times> fsys" where
  "HandleGetFile env r s =
     (if reqMethod r \<noteq> ''GET'' then (httpError ''Method not allowed'' 405, s)
      else let filePath = query r ''path''
      in if filePath = [] then (httpError ''Missing path parameter'' 400, s)
         else case isPathSafe env filePath of
           (cleanPath, safe) \<Rightarrow>
             if \<not> safe then (httpError ''Invalid path'' 400, s)
             else
               (case fsExec (Stat cleanPath) s of
                  (Inl e, s1) \<Rightarrow>
                    if e = ErrNotExist then (httpError ''File not found'' 404, s1)
                    else (httpError [] 500, s1)
                | (Inr info, s1) \<Rightarrow>
                    (case info of
                       VInfo isDir sz \<Rightarrow>
                         if int sz > maxEditSize
                         then (httpError ''File too large for editing (max 1MB)'' 400, s1)
                         else if isDir then (httpError ''Cannot edit directory'' 400, s1)
                         else
                           (case fsExec (ReadFile cleanPath) s1 of
                              (Inr (VData content), s2) \<Rightarrow> (httpOK 200 content, s2)
                            | (x, s2) \<Rightarrow> (httpError ''Failed to read file'' 500, s2))
                     | x \<Rightarrow> (httpError [] 500, s1))))"

definition HandleSaveFile :: "srvEnv \<Rightarrow> request \<Rightarrow> fsys \<Rightarrow> response \<times> fsys" where
  "HandleSaveFile env r s =
     (if reqMethod r \<noteq> ''PUT'' then (httpError ''Method not allowed'' 405, s)
      else let filePath = query r ''path''
      in if filePath = [] then (httpError ''Missing path parameter'' 400, s)
         else case isPathSafe env filePath of
           (cleanPath, safe) \<Rightarrow>
             if \<not> safe then (httpError ''Invalid path'' 400, s)
             else if reqLen r > maxEditSize then (httpError ''Content too large (max 1MB)'' 400, s)
             else
               (case fsExec (MkdirAll (filepath_Dir cleanPath)) s of
                  (Inl e, s1) \<Rightarrow> (httpError ''Failed to create directory'' 500, s1)
                | (Inr v, s1) \<Rightarrow>
                    if bodyFails r then (httpError ''Failed to read content'' 500, s1)
                    else if int (length (reqBody r)) > maxEditSize
                    then (httpError ''Content too large (max 1MB)'' 400, s1)
                    else
                      (case fsExec (WriteFile cleanPath (reqBody r)) s1 of
                         (Inl e, s2) \<Rightarrow> (httpError ''Failed to write file'' 500, s2)
                       | (Inr v2, s2) \<Rightarrow> (httpOK 200 ''OK'', s2))))"

subsection \<open>UploadHandler (upload_handler.go)\<close>

text \<open>
  \<open>io.Copy(file, r.Body)\<close> writes what the body delivers at the current offset of the
  handle; an empty body causes no write. A body that ends in an error makes the copy fail
  after the data received has been written.
\<close>

definition copyBody :: "string \<Rightarrow> int \<Rightarrow> request \<Rightarrow> fsys \<Rightarrow> (fsErr + nat) \<times> fsys" where
  "copyBody p off r s =
     (if reqBody r = [] then (if bodyFails r then (Inl ErrOther, s) else (Inr 0, s))
      else (case fsExec (WriteAt p off (reqBody r)) s of
              (Inl e, s1) \<Rightarrow> (Inl e, s1)
            | (Inr v, s1) \<Rightarrow>
                if bodyFails r then (Inl ErrOther, s1) else (Inr (length (reqBody r)), s1)))"

text \<open>
  The goroutine started after a successful extraction removes the archive, trying up to
  five times and stopping when the removal succeeds or the archive is already gone. It is
  run here before the handler returns.
\<close>

fun removeRetry :: "nat \<Rightarrow> string \<Rightarrow> fsys \<Rightarrow> fsys" where
  "removeRetry 0 p s = s"
| "removeRetry (Suc n) p s =
     (case fsExec (Remove p) s of
        (Inl e, s1) \<Rightarrow> if e = ErrNotExist then s1 else removeRetry n p s1
      | (Inr v, s1) \<Rightarrow> s1)"

text \<open>
  \<open>HandleUpload\<close>, in three parts: the checks and the opening of the destination, the
  write at the offset with the sync that follows it, and the extraction of an uploaded
  archive.
\<close>

definition uploadExtract :: "bool \<Rightarrow> string \<Rightarrow> fsys \<Rightarrow> response \<times> fsys" where
  "uploadExtract autoExtract cleanPath s =
     (if autoExtract \<and> hasSuffix cleanPath ''.tar.gz'' then
        (case fsExec (ExtractArchive ''targz'' cleanPath (filepath_Dir cleanPath)) s of
           (Inl e, s1) \<Rightarrow> (httpError ''Failed to extract archive'' 500, s1)
         | (Inr v, s1) \<Rightarrow> (httpOK 200 ''OK'', removeRetry 5 cleanPath s1))
      else (httpOK 200 ''OK'', s))"

definition uploadWrite :: "bool \<Rightarrow> string \<Rightarrow> int \<Rightarrow> request \<Rightarrow> fsys \<Rightarrow> response \<times> fsys" where
  "uploadWrite autoExtract cleanPath startOffset r s =
     (case (if startOffset > 0 then fsExec (Seek cleanPath startOffset) s else (Inr VUnit, s)) of
        (Inl e, s1) \<Rightarrow> (httpError ''Failed to seek file'' 500, s1)
      | (Inr v1, s1) \<Rightarrow>
          (case copyBody cleanPath (if startOffset > 0 then startOffset else 0) r s1 of
             (Inl e, s2) \<Rightarrow> (httpError ''Failed to write file'' 500, s2)
           | (Inr written, s2) \<Rightarrow>
               (case fsExec (Sync cleanPath) s2 of
                  (Inl e, s3) \<Rightarrow> (httpError ''Failed to sync file'' 500, s3)
                | (Inr v3, s3) \<Rightarrow>
                    (case fsExec (Fstat cleanPath) s3 of
                       (Inl e, s4) \<Rightarrow> (httpError ''Failed to stat file'' 500, s4)
                     | (Inr info, s4) \<Rightarrow> uploadExtract autoExtract cleanPath s4))))"

definition uploadStartOffset :: "request \<Rightarrow> int" where
  "uploadStartOffset r =
     (let contentRange = header r ''Content-Range''
      in if contentRange \<noteq> [] then
           (case sscanfContentRange contentRange of
              Some (start, end0, tot) \<Rightarrow> start
            | None \<Rightarrow> 0)
         else 0)"

definition HandleUpload :: "srvEnv \<Rightarrow> request \<Rightarrow> fsys \<Rightarrow> response \<times> fsys" where
  "HandleUpload env r s =
     (if reqMethod r \<noteq> ''PUT'' then (httpError ''Method not allowed'' 405, s)
      else if query r ''path'' = [] then (httpError ''Missing path parameter'' 400, s)
      else let autoExtract = (header r ''X-Auto-Extract'' = ''1'')
      in case isPathSafe env (query r ''path'') of
           (cleanPath, safe) \<Rightarrow>
             if \<not> safe then (httpError ''Invalid path'' 400, s)
             else
               (case fsExec (MkdirAll (filepath_Dir cleanPath)) s of
                  (Inl e, s1) \<Rightarrow> (httpError ''Failed to create directory'' 500, s1)
                | (Inr v1, s1) \<Rightarrow>
                    let startOffset = uploadStartOffset r
                    in (case (if startOffset > 0
                              then fsExec (OpenFile cleanPath O_RDWR True False) s1
                              else fsExec (OpenFile cleanPath O_WRONLY True True) s1) of
                          (Inl e, s2) \<Rightarrow> (httpError ''Failed to open file'' 500, s2)
                        | (Inr v2, s2) \<Rightarrow> uploadWrite autoExtract cleanPath startOffset r s2)))"

subsection \<open>Checksum and download (server/main.go)\<close>

text \<open>
  \<open>getFileChecksum\<close> opens the file and hashes what it reads; the two steps are one
  \<open>ReadFile\<close> call here. \<open>handleChecksum\<close> validates \<open>r.URL.Path\<close> with the copy of
  \<open>isPathSafe\<close> in \<open>main.go\<close>, which is the same function.
\<close>

definition getFileChecksum :: "srvEnv \<Rightarrow> string \<Rightarrow> fsys \<Rightarrow> (fsErr + string) \<times> fsys" where
  "getFileChecksum env p s =
     (case fsExec (ReadFile p) s of
        (Inr (VData content), s1) \<Rightarrow> (Inr (hexEncode (sha256_Sum256 (hashLib env) content)), s1)
      | (Inl e, s1) \<Rightarrow> (Inl e, s1)
      | (Inr v, s1) \<Rightarrow> (Inl ErrOther, s1))"

definition handleChecksum :: "srvEnv \<Rightarrow> request \<Rightarrow> fsys \<Rightarrow> response \<times> fsys" where
  "handleChecksum env r s =
     (case isPathSafe env (urlPath r) of
        (filePath, safe) \<Rightarrow>
          if \<not> safe then (httpError ''Invalid path'' 400, s)
          else
            (case getFileChecksum env filePath s of
               (Inl e, s1) \<Rightarrow> (httpError ''File not found or unreadable'' 404, s1)
             | (Inr digest, s1) \<Rightarrow> (httpOK 200 digest, s1)))"

text \<open>
  The default route hands \<open>GET\<close> and \<open>HEAD\<close> to \<open>http.FileServer(http.Dir(rootDir))\<close>.
  The standard library's handler is modelled for regular files and a single byte range:
  no \<open>Range\<close> header (or an empty file) gives status 200 with the whole content, a range
  that starts inside the file gives status 206 with that part, any other range gives 416;
  a \<open>HEAD\<close> response has the same length and no body. Directories (listings, redirects)
  are answered with status 200 and an unknown length.
\<close>

definition allDigits :: "string \<Rightarrow> bool" where
  "allDigits s = (s \<noteq> [] \<and> list_all isDigit s)"

definition parseRange :: "string \<Rightarrow> nat \<Rightarrow> (nat \<times> nat) option" where
  "parseRange hdr sz =
     (if \<not> hasPrefix hdr ''bytes='' then None
      else let spec = drop 6 hdr;
               startStr = trimSpace (takeWhile (\<lambda>c. c \<noteq> CHR ''-'') spec);
               rest = dropWhile (\<lambda>c. c \<noteq> CHR ''-'') spec;
               endStr = trimSpace (drop 1 rest)
      in if rest = [] then None
         else if startStr = [] then
           (if \<not> allDigits endStr then None
            else let n = min (nat (decimal endStr)) sz in
              if n = 0 then None else Some (sz - n, n))
         else if \<not> allDigits startStr then None
         else let a = nat (decimal startStr)
         in if sz \<le> a then None
            else if endStr = [] then Some (a, sz - a)
            else if \<not> allDigits endStr then None
            else let b = min (nat (decimal endStr)) (sz - 1)
                 in if b < a then None else Some (a, b - a + 1))"

definition fileServer :: "srvEnv \<Rightarrow> request \<Rightarrow> fsys \<Rightarrow> response \<times> fsys" where
  "fileServer env r s =
     (let upath = (if hasPrefix (urlPath r) ''/'' then urlPath r else ''/'' @ urlPath r);
          name = path_Clean upath;
          dir = (if rootDir env = [] then ''.'' else rootDir env);
          fullName = filepath_Join [dir, path_Clean (''/'' @ name)]
      in case fsExec (Stat fullName) s of
           (Inl e, s1) \<Rightarrow>
             if e = ErrNotExist then (httpError ''404 page not found'' 404, s1)
             else (httpError ''500 Internal Server Error'' 500, s1)
         | (Inr (VInfo True n), s1) \<Rightarrow> (\<lparr> statusCode = 200, respBody = [], respLen = - 1 \<rparr>, s1)
         | (Inr (VInfo False sz), s1) \<Rightarrow>
             (case fsExec (ReadFile fullName) s1 of
                (Inr (VData content), s2) \<Rightarrow>
                  if header r ''Range'' = [] \<or> sz = 0 then
                    (\<lparr> statusCode = 200,
                       respBody = (if reqMethod r = ''HEAD'' then [] else content),
                       respLen = int sz \<rparr>, s2)
                  else
                    (case parseRange (header r ''Range'') sz of
                       None \<Rightarrow> (httpError ''invalid range'' 416, s2)
                     | Some (a, n) \<Rightarrow>
                         (\<lparr> statusCode = 206,
                            respBody = (if reqMethod r = ''HEAD'' then [] else take n (drop a content)),
                            respLen = int n \<rparr>, s2))
              | (x, s2) \<Rightarrow> (httpError ''500 Internal Server Error'' 500, s2))
         | (Inr v, s1) \<Rightarrow> (httpError ''500 Internal Server Error'' 500, s1))"

text \<open>
  \<open>createMainHandler\<close>: the route is chosen by the \<open>action\<close> query parameter. The
  \<open>copy\<close> action calls \<open>HandleCopy\<close>, which is not part of the sources at hand; it is
  answered here without touching the file system.
\<close>

definition mainHandler :: "srvEnv \<Rightarrow> request \<Rightarrow> fsys \<Rightarrow> response \<times> fsys" where
  "mainHandler env r s =
     (let action = query r ''action''
      in if action = ''checksum'' then handleChecksum env r s
         else if action = ''list'' then HandleList env r s
         else if action = ''delete'' then HandleDelete env r s
         else if action = ''mkdir'' then HandleMkdir env r s
         else if action = ''rename'' then HandleRename env r s
         else if action = ''copy'' then (httpError ''copy'' 501, s)
         else if action = ''stat'' then HandleStat env r s
         else if action = ''chmod'' then HandleChmod env r s
         else if action = ''compress'' then HandleCompress env r s
         else if action = ''extract'' then HandleExtract env r s
         else if action = ''edit'' then
           (if reqMethod r = ''GET'' then HandleGetFile env r s
            else if reqMethod r = ''PUT'' then HandleSaveFile env r s
            else (httpError ''Method not allowed'' 405, s))
         else if action = ''upload'' then HandleUpload env r s
         else if reqMethod r = ''GET'' \<or> reqMethod r = ''HEAD'' then fileServer env r s
         else if reqMethod r = ''PUT'' then HandleUpload env r s
         else (httpError ''Method not allowed'' 405, s))"








subsection \<open>Which paths a request may touch\<close>

text \<open>
  \<open>requestPaths\<close> lists every string that some handler passes to \<open>isPathSafe\<close> for a
  request; \<open>safeTargets\<close> are the full paths \<open>isPathSafe\<close> returns for those it accepts.
  A call is \<open>permitted\<close> when each path it names is such a target, or, for \<open>MkdirAll\<close>
  and the destination of an extraction, the parent directory of one.
\<close>

definition extractDefaultDest :: "string \<Rightarrow> string" where
  "extractDefaultDest archivePath =
     take (length archivePath - length (filepath_Ext archivePath)) archivePath"

definition requestPaths :: "request \<Rightarrow> string list" where
  "requestPaths r =
     [cleanRelPath (query r ''path''), query r ''path'', query r ''old'', query r ''new'',
      query r ''output'', query r ''dest'', extractDefaultDest (query r ''path''), urlPath r]
     @ map trimSpace (splitComma (query r ''paths''))"

definition safeTargets :: "srvEnv \<Rightarrow> request \<Rightarrow> string list" where
  "safeTargets env r = map fst (filter snd (map (isPathSafe env) (requestPaths r)))"


fun callPaths :: "fsCall \<Rightarrow> string list" where
  "callPaths (Stat p) = [p]"
| "callPaths (Remove p) = [p]"
| "callPaths (RemoveAll p) = [p]"
| "callPaths (MkdirAll p) = [p]"
| "callPaths (Rename p q) = [p, q]"
| "callPaths (Chmod p m) = [p]"
| "callPaths (ReadDir p) = [p]"
| "callPaths (WalkDir p) = [p]"
| "callPaths (ReadFile p) = [p]"
| "callPaths (WriteFile p d) = [p]"
| "callPaths (OpenFile p m c t) = [p]"
| "callPaths (Seek p off) = [p]"
| "callPaths (WriteAt p off d) = [p]"
| "callPaths (Sync p) = [p]"
| "callPaths (Fstat p) = [p]"
| "callPaths (CreateArchive f out srcs) = out # srcs"
| "callPaths (ExtractArchive k a d) = [a, d]"

fun parentAllowed :: "fsCall \<Rightarrow> bool" where
  "parentAllowed (MkdirAll p) = True"
| "parentAllowed (ExtractArchive k a d) = True"
| "parentAllowed c = False"

definition permitted :: "srvEnv \<Rightarrow> request \<Rightarrow> fsCall \<Rightarrow> bool" where
  "permitted env r c =
     list_all (\<lambda>p. p \<in> set (safeTargets env r)
                  \<or> (parentAllowed c \<and> p \<in> set (map filepath_Dir (safeTargets env r))))
              (callPaths c)"






section \<open>Chunked transfer engine: transfers (kcpclient/client.go)\<close>

text \<open>
  The client runs against a local file system and a remote party reached through the
  session. The remote party is a parameter: a transport maps a request and the remote
  state to a reply and the next remote state. A reply is a transport error, or a response
  together with a flag telling that reading its body ends in an error after the bytes in
  \<open>respBody\<close>. The world also records the requests sent and whether the session is
  connected. A remote path is taken to be a URL path free of query and fragment
  characters, so that it arrives as \<open>r.URL.Path\<close> unchanged. Progress callbacks are not
  modelled.
\<close>

datatype reply = NetErr | Reply response bool

type_synonym 'r transport = "request \<Rightarrow> 'r \<Rightarrow> reply \<times> 'r"

record 'r world =
  localFs :: fsys
  remote :: 'r
  sent :: "request list"
  connected :: bool

datatype cerr =
    NotConnected | OpenFileErr | StatFileErr | RequestErr | UploadFailed nat
  | ChunkFailed nat cerr | HeadRequestFailed | UnknownFileSize | CreateDirectory
  | DownloadRequestFailed | DownloadFailed nat | SeekError | WriteError | ReadError
  | CreateTempDirectory | CreateFinalFile | ReadChunk nat | WriteChunk nat
  | GetRemoteChecksum | ReadRemoteChecksum | CalcLocalChecksum | ChecksumMismatch
  | StatPath | CompressBeforeUpload | OpenCompressed | RequestCompression
  | DownloadCompressed cerr | ExtractDownloaded | Panic

definition localExec :: "fsCall \<Rightarrow> 'r world \<Rightarrow> (fsErr + fsVal) \<times> 'r world" where
  "localExec c w = (case fsExec c (localFs w) of (x, fs) \<Rightarrow> (x, w\<lparr>localFs := fs\<rparr>))"

definition doRequest :: "'r transport \<Rightarrow> request \<Rightarrow> 'r world \<Rightarrow> reply \<times> 'r world" where
  "doRequest net req w =
     (case net req (remote w) of
        (rep, rs) \<Rightarrow> (rep, w\<lparr>remote := rs, sent := sent w @ [req]\<rparr>))"

subsection \<open>Formatting\<close>

definition digitChar :: "nat \<Rightarrow> char" where
  "digitChar n = char_of (48 + n mod 10)"

function showNat :: "nat \<Rightarrow> string" where
  "showNat n = (if n < 10 then [digitChar n] else showNat (n div 10) @ [digitChar n])"
  by pat_completeness auto

termination
  by (relation "measure id") auto

declare showNat.simps [simp del]

definition showInt :: "int \<Rightarrow> string" where
  "showInt i = (if i < 0 then CHR ''-'' # showNat (nat (- i)) else showNat (nat i))"

text \<open>\<open>%04d\<close>: at least four digits, padded with zeros.\<close>

definition showInt04 :: "int \<Rightarrow> string" where
  "showInt04 i =
     (if i < 0 then CHR ''-'' # replicate (3 - length (showNat (nat (- i)))) (CHR ''0'')
                                @ showNat (nat (- i))
      else replicate (4 - length (showNat (nat i))) (CHR ''0'') @ showNat (nat i))"

definition filepath_Base :: "string \<Rightarrow> string" where
  "filepath_Base p =
     (if p = [] then ''.''
      else let q = rev (dropWhile (\<lambda>c. c = CHR ''/'') (rev p))
           in if q = [] then ''/'' else rev (takeWhile (\<lambda>c. c \<noteq> CHR ''/'') (rev q)))"

subsection \<open>Requests\<close>

definition noParams :: "string \<Rightarrow> string" where
  "noParams k = []"

definition headRequest :: "string \<Rightarrow> request" where
  "headRequest remotePath =
     \<lparr> reqMethod = ''HEAD'', urlPath = remotePath, query = noParams, header = noParams,
       reqBody = [], reqLen = 0, bodyFails = False \<rparr>"

definition getRequest :: "string \<Rightarrow> string \<Rightarrow> request" where
  "getRequest remotePath rangeHdr =
     \<lparr> reqMethod = ''GET'', urlPath = remotePath, query = noParams,
       header = (\<lambda>k. if k = ''Range'' then rangeHdr else []),
       reqBody = [], reqLen = 0, bodyFails = False \<rparr>"

definition checksumRequest :: "string \<Rightarrow> request" where
  "checksumRequest remotePath =
     \<lparr> reqMethod = ''GET'', urlPath = remotePath,
       query = (\<lambda>k. if k = ''action'' then ''checksum'' else []), header = noParams,
       reqBody = [], reqLen = 0, bodyFails = False \<rparr>"

definition uploadRequest :: "string \<Rightarrow> string \<Rightarrow> bool \<Rightarrow> string \<Rightarrow> request" where
  "uploadRequest remotePath contentRange autoExtract body =
     \<lparr> reqMethod = ''PUT'', urlPath = [],
       query = (\<lambda>k. if k = ''action'' then ''upload'' else if k = ''path'' then remotePath else []),
       header = (\<lambda>k. if k = ''Content-Range'' then contentRange
                      else if k = ''X-Auto-Extract'' \<and> autoExtract then ''1'' else []),
       reqBody = body, reqLen = int (length body), bodyFails = False \<rparr>"

definition statRequest :: "string \<Rightarrow> request" where
  "statRequest remotePath =
     \<lparr> reqMethod = ''GET'', urlPath = [],
       query = (\<lambda>k. if k = ''action'' then ''stat'' else if k = ''path'' then remotePath else []),
       header = noParams, reqBody = [], reqLen = 0, bodyFails = False \<rparr>"

definition compressRequest :: "string \<Rightarrow> request" where
  "compressRequest remotePath =
     \<lparr> reqMethod = ''POST'', urlPath = [],
       query = (\<lambda>k. if k = ''action'' then ''compress'' else if k = ''paths'' then remotePath
                     else if k = ''output'' then remotePath @ ''.tar.gz''
                     else if k = ''format'' then ''targz'' else []),
       header = (\<lambda>k. if k = ''Content-Type'' then ''application/json'' else []),
       reqBody = [], reqLen = 0, bodyFails = False \<rparr>"

definition deleteRequest :: "string \<Rightarrow> request" where
  "deleteRequest remotePath =
     \<lparr> reqMethod = ''DELETE'', urlPath = [],
       query = (\<lambda>k. if k = ''action'' then ''delete'' else if k = ''path'' then remotePath else []),
       header = noParams, reqBody = [], reqLen = 0, bodyFails = False \<rparr>"

subsection \<open>Integrity check\<close>

definition verifyChecksum ::
  "'r transport \<Rightarrow> cryptoLib \<Rightarrow> string \<Rightarrow> string \<Rightarrow> 'r world \<Rightarrow> (cerr + unit) \<times> 'r world" where
  "verifyChecksum net lib remotePath localPath w =
     (case doRequest net (checksumRequest remotePath) w of
        (NetErr, w1) \<Rightarrow> (Inl GetRemoteChecksum, w1)
      | (Reply resp broken, w1) \<Rightarrow>
          if broken then (Inl ReadRemoteChecksum, w1)
          else
            (case localExec (ReadFile localPath) w1 of
               (Inr (VData content), w2) \<Rightarrow>
                 if respBody resp \<noteq> hexEncode (sha256_Sum256 lib content)
                 then (Inl ChecksumMismatch, w2)
                 else (Inr (), w2)
             | (x, w2) \<Rightarrow> (Inl CalcLocalChecksum, w2)))"

subsection \<open>Copying a response body to a local file\<close>

text \<open>
  The copy loops read the body through a 32 KiB buffer and write each piece at the
  position the previous one ended. The pieces are taken to be full except the last.
\<close>

function pieces :: "nat \<Rightarrow> string \<Rightarrow> string list" where
  "pieces n xs = (if n = 0 \<or> xs = [] then [] else take n xs # pieces n (drop n xs))"
  by pat_completeness auto

termination
  by (relation "measure (\<lambda>(n, xs). length xs)") auto

declare pieces.simps [simp del]

fun writePieces :: "string \<Rightarrow> int \<Rightarrow> string list \<Rightarrow> 'r world \<Rightarrow> (fsErr + unit) \<times> 'r world" where
  "writePieces p off [] w = (Inr (), w)"
| "writePieces p off (d # ds) w =
     (case localExec (WriteAt p off d) w of
        (Inl e, w1) \<Rightarrow> (Inl e, w1)
      | (Inr v, w1) \<Rightarrow> writePieces p (off + int (length d)) ds w1)"

subsection \<open>Single-stream download\<close>

definition rangeFrom :: "int \<Rightarrow> string" where
  "rangeFrom startByte = ''bytes='' @ showInt startByte @ ''-''"

definition rangeOf :: "int \<Rightarrow> int \<Rightarrow> string" where
  "rangeOf start end0 = ''bytes='' @ showInt start @ ''-'' @ showInt (i64 (end0 - 1))"

text \<open>
  The three places where \<open>downloadFileSingle\<close> tests \<open>startByte > 0\<close>: the mode in
  which the local file is opened, the \<open>Range\<close> header of the request, and the seek
  before the copy loop.
\<close>

definition resumeOpen :: "string \<Rightarrow> int \<Rightarrow> fsCall" where
  "resumeOpen localPath startByte =
     (if startByte > 0 then OpenFile localPath O_RDWR False False
      else OpenFile localPath O_WRONLY True True)"

definition resumeRequest :: "string \<Rightarrow> int \<Rightarrow> request" where
  "resumeRequest remotePath startByte =
     getRequest remotePath (if startByte > 0 then rangeFrom startByte else [])"

definition resumeSeek :: "string \<Rightarrow> int \<Rightarrow> 'r world \<Rightarrow> (fsErr + fsVal) \<times> 'r world" where
  "resumeSeek localPath startByte w =
     (if startByte > 0 then localExec (Seek localPath startByte) w else (Inr VUnit, w))"

text \<open>\<open>downloadFileSingle\<close> from the request for the content on.\<close>

definition downloadSingleBody ::
  "'r transport \<Rightarrow> cryptoLib \<Rightarrow> string \<Rightarrow> string \<Rightarrow> int \<Rightarrow> 'r world \<Rightarrow> (cerr + unit) \<times> 'r world" where
  "downloadSingleBody net lib remotePath localPath startByte w =
     (case doRequest net (resumeRequest remotePath startByte) w of
        (NetErr, w1) \<Rightarrow> (Inl DownloadRequestFailed, w1)
      | (Reply resp broken, w1) \<Rightarrow>
          if statusCode resp \<noteq> 200 \<and> statusCode resp \<noteq> 206
          then (Inl (DownloadFailed (statusCode resp)), w1)
          else
            (case resumeSeek localPath startByte w1 of
               (Inl e, w2) \<Rightarrow> (Inl SeekError, w2)
             | (Inr v, w2) \<Rightarrow>
                 (case writePieces localPath startByte (pieces 32768 (respBody resp)) w2 of
                    (Inl e, w3) \<Rightarrow> (Inl WriteError, w3)
                  | (Inr u, w3) \<Rightarrow>
                      if broken then (Inl ReadError, w3)
                      else verifyChecksum net lib remotePath localPath w3)))"

definition localSize :: "string \<Rightarrow> 'r world \<Rightarrow> int \<times> 'r world" where
  "localSize localPath w =
     (case localExec (Stat localPath) w of
        (Inr (VInfo isDir sz), w1) \<Rightarrow> (int sz, w1)
      | (x, w1) \<Rightarrow> (0, w1))"

definition downloadFileSingle ::
  "'r transport \<Rightarrow> cryptoLib \<Rightarrow> string \<Rightarrow> string \<Rightarrow> 'r world \<Rightarrow> (cerr + unit) \<times> 'r world" where
  "downloadFileSingle net lib remotePath localPath w =
     (case localSize localPath w of
        (startByte, w0) \<Rightarrow>
          (case doRequest net (headRequest remotePath) w0 of
             (NetErr, w1) \<Rightarrow> (Inl HeadRequestFailed, w1)
           | (Reply headResp hb, w1) \<Rightarrow>
               let fileSize = respLen headResp
               in if startByte \<ge> fileSize then (Inr (), w1)
                  else
                    (case localExec (MkdirAll (filepath_Dir localPath)) w1 of
                       (Inl e, w2) \<Rightarrow> (Inl CreateDirectory, w2)
                     | (Inr v, w2) \<Rightarrow>
                         (case localExec (resumeOpen localPath startByte) w2 of
                            (Inl e, w3) \<Rightarrow> (Inl OpenFileErr, w3)
                          | (Inr v3, w3) \<Rightarrow>
                              downloadSingleBody net lib remotePath localPath startByte w3))))"

subsection \<open>Parallel download\<close>

definition chunkFileName :: "string \<Rightarrow> int \<Rightarrow> string" where
  "chunkFileName tempDir chunkIndex = tempDir @ ''/chunk_'' @ showInt04 chunkIndex @ ''.tmp''"

definition downloadChunkToFile ::
  "'r transport \<Rightarrow> string \<Rightarrow> string \<Rightarrow> int \<Rightarrow> int \<Rightarrow> 'r world \<Rightarrow> (cerr + unit) \<times> 'r world" where
  "downloadChunkToFile net remotePath chunkFile start end0 w =
     (case doRequest net (getRequest remotePath (rangeOf start end0)) w of
        (NetErr, w1) \<Rightarrow> (Inl RequestErr, w1)
      | (Reply resp broken, w1) \<Rightarrow>
          if statusCode resp \<noteq> 206 \<and> statusCode resp \<noteq> 200
          then (Inl (DownloadFailed (statusCode resp)), w1)
          else
            (case localExec (OpenFile chunkFile O_RDWR True True) w1 of
               (Inl e, w2) \<Rightarrow> (Inl OpenFileErr, w2)
             | (Inr v, w2) \<Rightarrow>
                 (case writePieces chunkFile 0 (pieces 32768 (respBody resp)) w2 of
                    (Inl e, w3) \<Rightarrow> (Inl WriteError, w3)
                  | (Inr u, w3) \<Rightarrow> if broken then (Inl ReadError, w3) else (Inr (), w3))))"

text \<open>
  The workers run concurrently in the source. Here they run one after the other, each to
  completion, in an order chosen by a scheduler applied to the list of chunk indices;
  results are collected in that order, and the first failure found fails the transfer.
\<close>

fun downloadWorkers ::
  "'r transport \<Rightarrow> string \<Rightarrow> string \<Rightarrow> int \<Rightarrow> int \<Rightarrow> nat list \<Rightarrow> 'r world
     \<Rightarrow> (nat \<times> (cerr + unit)) list \<times> 'r world" where
  "downloadWorkers net remotePath tempDir fileSize chunkSize [] w = ([], w)"
| "downloadWorkers net remotePath tempDir fileSize chunkSize (i # is) w =
     (case chunkBounds fileSize chunkSize (int i) of
        (start, end0) \<Rightarrow>
          (case downloadChunkToFile net remotePath (chunkFileName tempDir (int i)) start end0 w of
             (res, w1) \<Rightarrow>
               (case downloadWorkers net remotePath tempDir fileSize chunkSize is w1 of
                  (rs, w2) \<Rightarrow> ((i, res) # rs, w2))))"

fun firstFailure :: "(nat \<times> (cerr + unit)) list \<Rightarrow> cerr option" where
  "firstFailure [] = None"
| "firstFailure ((i, Inl e) # rs) = Some (ChunkFailed i e)"
| "firstFailure ((i, Inr u) # rs) = firstFailure rs"

fun mergeLoop :: "string \<Rightarrow> string \<Rightarrow> nat list \<Rightarrow> int \<Rightarrow> 'r world \<Rightarrow> (cerr + unit) \<times> 'r world" where
  "mergeLoop tempDir finalFile [] off w = (Inr (), w)"
| "mergeLoop tempDir finalFile (i # is) off w =
     (case localExec (ReadFile (chunkFileName tempDir (int i))) w of
        (Inr (VData d), w1) \<Rightarrow>
          (case localExec (WriteAt finalFile off d) w1 of
             (Inl e, w2) \<Rightarrow> (Inl (WriteChunk i), snd (localExec (Remove finalFile) w2))
           | (Inr v, w2) \<Rightarrow> mergeLoop tempDir finalFile is (off + int (length d)) w2)
      | (x, w1) \<Rightarrow> (Inl (ReadChunk i), snd (localExec (Remove finalFile) w1)))"

definition mergeChunks :: "string \<Rightarrow> string \<Rightarrow> int \<Rightarrow> 'r world \<Rightarrow> (cerr + unit) \<times> 'r world" where
  "mergeChunks tempDir finalFile numChunks w =
     (case localExec (OpenFile finalFile O_RDWR True True) w of
        (Inl e, w1) \<Rightarrow> (Inl CreateFinalFile, w1)
      | (Inr v, w1) \<Rightarrow> mergeLoop tempDir finalFile [0 ..< nat numChunks] 0 w1)"

definition tempDirOf :: "string \<Rightarrow> string" where
  "tempDirOf localPath = filepath_Dir localPath @ ''/.tmp_'' @ filepath_Base localPath"

text \<open>\<open>downloadFileParallel\<close> once the temporary directory exists.\<close>

definition downloadParallelBody ::
  "'r transport \<Rightarrow> cryptoLib \<Rightarrow> (nat list \<Rightarrow> nat list) \<Rightarrow> string \<Rightarrow> string \<Rightarrow> int \<Rightarrow> 'r world
     \<Rightarrow> (cerr + unit) \<times> 'r world" where
  "downloadParallelBody net lib sched remotePath localPath fileSize w =
     (let chunkSize = downloadFileParallel_chunkSize fileSize;
          numChunks = downloadFileParallel_numChunks fileSize;
          tempDir = tempDirOf localPath
      in if numChunks < 0 then (Inl Panic, w)
         else
           (case downloadWorkers net remotePath tempDir fileSize chunkSize
                   (sched [0 ..< nat numChunks]) w of
              (results, w1) \<Rightarrow>
                (case firstFailure results of
                   Some err \<Rightarrow> (Inl err, w1)
                 | None \<Rightarrow>
                     (case mergeChunks tempDir localPath numChunks w1 of
                        (Inl e, w2) \<Rightarrow> (Inl e, w2)
                      | (Inr u, w2) \<Rightarrow> verifyChecksum net lib remotePath localPath w2))))"

definition downloadFileParallel ::
  "'r transport \<Rightarrow> cryptoLib \<Rightarrow> (nat list \<Rightarrow> nat list) \<Rightarrow> string \<Rightarrow> string \<Rightarrow> int \<Rightarrow> 'r world
     \<Rightarrow> (cerr + unit) \<times> 'r world" where
  "downloadFileParallel net lib sched remotePath localPath fileSize w =
     (case localExec (MkdirAll (filepath_Dir localPath)) w of
        (Inl e, w1) \<Rightarrow> (Inl CreateDirectory, w1)
      | (Inr v, w1) \<Rightarrow>
          (case localExec (RemoveAll (tempDirOf localPath)) w1 of
             (x, w2) \<Rightarrow>
               (case localExec (MkdirAll (tempDirOf localPath)) w2 of
                  (Inl e, w3) \<Rightarrow> (Inl CreateTempDirectory, w3)
                | (Inr v3, w3) \<Rightarrow>
                    (case downloadParallelBody net lib sched remotePath localPath fileSize w3 of
                       (res, w4) \<Rightarrow> (res, snd (localExec (RemoveAll (tempDirOf localPath)) w4))))))"

definition DownloadFile ::
  "'r transport \<Rightarrow> cryptoLib \<Rightarrow> (nat list \<Rightarrow> nat list) \<Rightarrow> string \<Rightarrow> string \<Rightarrow> 'r world
     \<Rightarrow> (cerr + unit) \<times> 'r world" where
  "DownloadFile net lib sched remotePath localPath w =
     (if \<not> connected w then (Inl NotConnected, w)
      else
        (case doRequest net (headRequest remotePath) w of
           (NetErr, w1) \<Rightarrow> (Inl HeadRequestFailed, w1)
         | (Reply headResp hb, w1) \<Rightarrow>
             let fileSize = respLen headResp
             in if fileSize \<le> 0 then (Inl UnknownFileSize, w1)
                else if fileSize < defaultChunkSize
                then downloadFileSingle net lib remotePath localPath w1
                else downloadFileParallel net lib sched remotePath localPath fileSize w1))"


text \<open>The transport that delivers each request to the server's main handler.\<close>

definition serverNet :: "srvEnv \<Rightarrow> fsys transport" where
  "serverNet env req srv =
     (case mainHandler env req srv of (resp, srv') \<Rightarrow> (Reply resp False, srv'))"



section \<open>Properties: arithmetic of the chunk plan\<close>

lemma i64_id: "- (2 ^ 63) \<le> x \<Longrightarrow> x < 2 ^ 63 \<Longrightarrow> i64 x = x"
  by (simp add: i64_def)

lemma quot_nonneg: "0 \<le> a \<Longrightarrow> 0 < b \<Longrightarrow> quot a b = a div b"
  by (cases "a = 0") (simp_all add: quot_def)

lemma ceil_div_bounds:
  fixes S cs :: int
  assumes "0 < cs"
  shows "((S + cs - 1) div cs - 1) * cs < S" and "S \<le> ((S + cs - 1) div cs) * cs"
proof -
  define q where "q = (S + cs - 1) div cs"
  define r where "r = (S + cs - 1) mod cs"
  have eq: "S + cs - 1 = q * cs + r" by (simp add: q_def r_def)
  have m0: "0 \<le> r" and m1: "r < cs" using assms by (simp_all add: r_def)
  have d: "(q - 1) * cs = q * cs - cs" by (simp add: algebra_simps)
  show "((S + cs - 1) div cs - 1) * cs < S" using eq m0 d unfolding q_def [symmetric] by linarith
  show "S \<le> ((S + cs - 1) div cs) * cs" using eq m1 unfolding q_def [symmetric] by linarith
qed

lemma below_last_chunk:
  fixes S cs :: int
  assumes cs: "0 < cs" and k: "int k + 1 \<le> (S + cs - 1) div cs"
  shows "int k * cs < S"
proof -
  have "int k * cs \<le> ((S + cs - 1) div cs - 1) * cs"
    using k cs by (intro mult_right_mono) simp_all
  with ceil_div_bounds(1) [OF cs, of S] show ?thesis by linarith
qed

lemma tiles_upt:
  assumes cs: "0 < cs" and n: "int n = (S + cs - 1) div cs"
  shows "k < n \<Longrightarrow> tiles (int k * cs) (map (\<lambda>i. (int i * cs, min ((int i + 1) * cs) S)) [k ..< n]) S"
proof (induction "n - k" arbitrary: k)
  case 0
  then show ?case by simp
next
  case (Suc d)
  have lt: "int k * cs < S"
    using below_last_chunk [OF cs, of k S] Suc.prems n by linarith
  show ?case
  proof (cases "Suc k < n")
    case True
    have "int (Suc k) * cs < S"
      using below_last_chunk [OF cs, of "Suc k" S] True n by linarith
    then have m: "min ((int k + 1) * cs) S = int (Suc k) * cs"
      by (simp add: algebra_simps)
    have d: "d = n - Suc k" using Suc.hyps(2) by simp
    have "tiles (int (Suc k) * cs) (map (\<lambda>i. (int i * cs, min ((int i + 1) * cs) S)) [Suc k ..< n]) S"
      using Suc.hyps(1) [OF d True] .
    moreover have "int k * cs < int (Suc k) * cs" using cs by (simp add: algebra_simps)
    ultimately show ?thesis
      using Suc.prems m by (simp add: upt_conv_Cons del: of_nat_Suc)
  next
    case False
    then have nk: "n = Suc k" using Suc.prems by simp
    have "S \<le> (int k + 1) * cs"
      using ceil_div_bounds(2) [OF cs, of S] n nk by (simp add: add.commute)
    then have m: "min ((int k + 1) * cs) S = S" by simp
    show ?thesis using lt m nk by (simp add: upt_conv_Cons)
  qed
qed

lemma tiles_spec_chunks: "0 < S \<Longrightarrow> tiles 0 (spec_chunks S) S"
proof -
  assume S: "0 < S"
  have cs: "0 < spec_chunkSize S" by (simp add: spec_chunkSize_def defaultChunkSize_def)
  have "1 \<le> spec_numChunks S"
    unfolding spec_numChunks_def using cs S
    by (smt (verit) ceil_div_bounds(2) mult_le_0_iff)
  then have n: "int (nat (spec_numChunks S)) = (S + spec_chunkSize S - 1) div spec_chunkSize S"
    and pos: "0 < nat (spec_numChunks S)"
    by (simp_all add: spec_numChunks_def)
  show ?thesis
    using tiles_upt [OF cs n, of 0] pos by (simp add: spec_chunks_def)
qed

lemma spec_numChunks_pos:
  assumes "0 < S"
  shows "1 \<le> spec_numChunks S"
proof -
  have cs: "0 < spec_chunkSize S" by (simp add: spec_chunkSize_def defaultChunkSize_def)
  have "S \<le> spec_numChunks S * spec_chunkSize S"
    unfolding spec_numChunks_def by (rule ceil_div_bounds(2) [OF cs])
  with assms cs show ?thesis
    by (smt (verit) mult_le_0_iff)
qed

lemma download_chunkSize_upload:
  "downloadFileParallel_chunkSize S = uploadFileParallel_chunkSize S"
  by (simp add: downloadFileParallel_chunkSize_def uploadFileParallel_chunkSize_def)

lemma download_numChunks_upload:
  "downloadFileParallel_numChunks S = uploadFileParallel_numChunks S"
  by (simp add: downloadFileParallel_numChunks_def uploadFileParallel_numChunks_def
      download_chunkSize_upload)

lemma download_chunks_upload:
  "downloadFileParallel_chunks S = uploadFileParallel_chunks S"
  by (simp add: downloadFileParallel_chunks_def uploadFileParallel_chunks_def
      download_chunkSize_upload download_numChunks_upload)

lemma i64_wrap_a: "i64 (i64 (maxInt64 + 8) - 1) = - 9223372036854775802"
  by (simp add: i64_def maxInt64_def)

lemma quot_a: "quot (- 9223372036854775802) 8 = - 1152921504606846975"
  by (simp add: quot_def)

lemma chunkSize_maxInt64: "uploadFileParallel_chunkSize maxInt64 = 4194304"
  by (simp add: uploadFileParallel_chunkSize_def Let_def i64_wrap_a quot_a defaultChunkSize_def)

lemma i64_wrap_b: "i64 (i64 (maxInt64 + 4194304) - 1) = - 9223372036850581506"
  by (simp add: i64_def maxInt64_def)

lemma quot_b: "quot (- 9223372036850581506) 4194304 = - 2199023255551"
  by (simp add: quot_def)

lemma numChunks_maxInt64: "uploadFileParallel_numChunks maxInt64 = - 2199023255551"
  by (simp add: uploadFileParallel_numChunks_def Let_def chunkSize_maxInt64 i64_wrap_b quot_b)

lemma spec_chunkSize_bounds:
  assumes "0 \<le> S" "S \<le> 8198552921648689607"
  shows "0 < spec_chunkSize S" and "S + spec_chunkSize S \<le> 2 ^ 63"
proof -
  show "0 < spec_chunkSize S" by (simp add: spec_chunkSize_def defaultChunkSize_def)
  have "(S + 7) div 8 \<le> (8198552921648689607 + 7) div 8"
    using assms(2) by (intro zdiv_mono1) simp_all
  then show "S + spec_chunkSize S \<le> 2 ^ 63"
    using assms by (simp add: spec_chunkSize_def defaultChunkSize_def max_def)
qed

lemma upload_chunkSize_eq:
  assumes "0 \<le> S" "S \<le> 8198552921648689607"
  shows "uploadFileParallel_chunkSize S = spec_chunkSize S"
  using assms
  by (simp add: uploadFileParallel_chunkSize_def spec_chunkSize_def i64_id quot_nonneg max_def Let_def add.commute)

lemma upload_numChunks_eq:
  assumes "0 \<le> S" "S \<le> 8198552921648689607"
  shows "uploadFileParallel_numChunks S = spec_numChunks S"
proof -
  note b = spec_chunkSize_bounds [OF assms]
  have "i64 (i64 (S + spec_chunkSize S) - 1) = S + spec_chunkSize S - 1"
  proof (cases "S + spec_chunkSize S = 2 ^ 63")
    case True
    then show ?thesis by (simp add: i64_def)
  next
    case False
    then have "S + spec_chunkSize S < 2 ^ 63" using b by simp
    then show ?thesis using assms b by (simp add: i64_id)
  qed
  then show ?thesis
    using assms b
    by (simp add: uploadFileParallel_numChunks_def upload_chunkSize_eq spec_numChunks_def quot_nonneg Let_def)
qed

lemma chunkBounds_eq:
  assumes S: "0 \<le> S" "S \<le> 8198552921648689607" and k: "int k < spec_numChunks S"
  shows "chunkBounds S (spec_chunkSize S) (int k) =
         (int k * spec_chunkSize S, min ((int k + 1) * spec_chunkSize S) S)"
proof -
  note b = spec_chunkSize_bounds [OF S]
  have lt: "int k * spec_chunkSize S < S"
    using below_last_chunk [OF b(1), of k S] k by (simp add: spec_numChunks_def)
  have ge: "0 \<le> int k * spec_chunkSize S" using b(1) by simp
  have s: "i64 (int k * spec_chunkSize S) = int k * spec_chunkSize S"
    using lt ge S by (simp add: i64_id)
  have e: "(int k + 1) * spec_chunkSize S = int k * spec_chunkSize S + spec_chunkSize S"
    by (simp add: algebra_simps)
  have hi: "int k * spec_chunkSize S + spec_chunkSize S < 2 ^ 63" using lt b(2) by linarith
  have "- (2 ^ 63) \<le> (0::int)" by simp
  then have lo: "- (2 ^ 63) \<le> int k * spec_chunkSize S + spec_chunkSize S" using ge b(1) by linarith
  have "i64 (int k * spec_chunkSize S + spec_chunkSize S) = int k * spec_chunkSize S + spec_chunkSize S"
    by (rule i64_id [OF lo hi])
  then show ?thesis using s e by (simp add: chunkBounds_def Let_def min_def)
qed

lemma upload_chunks_eq:
  assumes S: "0 < S" "S \<le> 8198552921648689607"
  shows "uploadFileParallel_chunks S = Some (spec_chunks S)"
proof -
  have S0: "0 \<le> S" using S by simp
  have n: "1 \<le> spec_numChunks S" by (rule spec_numChunks_pos [OF S(1)])
  have "map (\<lambda>i. chunkBounds S (spec_chunkSize S) (int i)) [0 ..< nat (spec_numChunks S)]
        = spec_chunks S"
    unfolding spec_chunks_def
    by (rule map_cong [OF refl]) (simp add: chunkBounds_eq [OF S0 S(2)])
  then show ?thesis
    using n
    by (simp add: uploadFileParallel_chunks_def upload_chunkSize_eq [OF S0 S(2)]
        upload_numChunks_eq [OF S0 S(2)])
qed

text \<open>Wrap-around: a sum in \<open>[2^63, 2^64)\<close> is read back \<open>2^64\<close> lower.\<close>

lemma i64_wrap: "2 ^ 63 \<le> x \<Longrightarrow> x < 2 ^ 64 \<Longrightarrow> i64 x = x - 2 ^ 64"
proof -
  assume a: "2 ^ 63 \<le> x" "x < 2 ^ 64"
  have "(x + 2 ^ 63) mod 2 ^ 64 = (x + 2 ^ 63 - 2 ^ 64) mod 2 ^ 64"
    by (metis minus_mod_self2)
  also have "\<dots> = x + 2 ^ 63 - 2 ^ 64" using a by (intro mod_pos_pos_trivial) simp_all
  finally show ?thesis by (simp add: i64_def)
qed

lemma quot_neg: "a < 0 \<Longrightarrow> 0 < b \<Longrightarrow> b \<le> - a \<Longrightarrow> quot a b < 0"
proof -
  assume a: "a < 0" "0 < b" "b \<le> - a"
  have "0 < (- a) div b" using pos_imp_zdiv_pos_iff [of b "- a"] a by simp
  with a show ?thesis by (simp add: quot_def)
qed

lemma numChunks_wrapped:
  assumes cs: "defaultChunkSize \<le> cs" "cs < 2 ^ 60" and S: "2 ^ 63 < S + cs" "S \<le> maxInt64"
  shows "quot (i64 (i64 (S + cs) - 1)) cs < 0"
proof -
  have c0: "0 < cs" using cs(1) by (simp add: defaultChunkSize_def)
  have up: "S + cs < 2 ^ 64" using S(2) cs(2) by (simp add: maxInt64_def)
  have 1: "i64 (S + cs) = S + cs - 2 ^ 64" using S(1) up by (simp add: i64_wrap)
  have lo: "- (2 ^ 63) \<le> S + cs - 2 ^ 64 - 1" using S(1) by simp
  have hi: "S + cs - 2 ^ 64 - 1 < 2 ^ 63" using up by simp
  have 2: "i64 (S + cs - 2 ^ 64 - 1) = S + cs - 2 ^ 64 - 1" by (rule i64_id [OF lo hi])
  have neg: "S + cs - 2 ^ 64 - 1 < 0" using up by simp
  have big: "cs \<le> - (S + cs - 2 ^ 64 - 1)" using S(2) cs(2) by (simp add: maxInt64_def)
  show ?thesis unfolding 1 2 by (rule quot_neg [OF neg c0 big])
qed

lemma upload_chunkSize_range:
  assumes "0 \<le> S" "S \<le> maxInt64"
  shows "defaultChunkSize \<le> uploadFileParallel_chunkSize S" "uploadFileParallel_chunkSize S < 2 ^ 60"
proof -
  let ?q = "quot (i64 (i64 (S + 8) - 1)) 8"
  show "defaultChunkSize \<le> uploadFileParallel_chunkSize S"
    by (simp add: uploadFileParallel_chunkSize_def Let_def)
  have "?q < 2 ^ 60"
  proof (cases "S + 8 < 2 ^ 63")
    case True
    then have e: "i64 (i64 (S + 8) - 1) = S + 7" using assms by (simp add: i64_id)
    have "(S + 7) div 8 \<le> (2 ^ 63 - 1) div 8"
      using True by (intro zdiv_mono1) simp_all
    then show ?thesis using assms e by (simp add: quot_nonneg)
  next
    case False
    show ?thesis
    proof (cases "S + 8 = 2 ^ 63")
      case True
      then have "i64 (i64 (S + 8) - 1) = 2 ^ 63 - 1" by (simp add: i64_def)
      then show ?thesis by (simp add: quot_nonneg)
    next
      case f2: False
      with False have a: "2 ^ 63 \<le> S + 8" "S + 8 < 2 ^ 64" "2 ^ 63 < S + 8"
        using assms by (simp_all add: maxInt64_def)
      have 1: "i64 (S + 8) = S + 8 - 2 ^ 64" by (rule i64_wrap [OF a(1,2)])
      have lo: "- (2 ^ 63) \<le> S + 8 - 2 ^ 64 - 1" using a(3) by simp
      have hi: "S + 8 - 2 ^ 64 - 1 < 2 ^ 63" using a(2) by simp
      have 2: "i64 (S + 8 - 2 ^ 64 - 1) = S + 8 - 2 ^ 64 - 1" by (rule i64_id [OF lo hi])
      have "S + 8 - 2 ^ 64 - 1 < 0" using a(2) by simp
      then have "quot (S + 8 - 2 ^ 64 - 1) 8 \<le> 0"
        by (simp add: quot_def mult_le_0_iff pos_imp_zdiv_nonneg_iff)
      then show ?thesis unfolding 1 2 by simp
    qed
  qed
  then show "uploadFileParallel_chunkSize S < 2 ^ 60"
    by (simp add: uploadFileParallel_chunkSize_def Let_def defaultChunkSize_def)
qed

lemma upload_chunkSize_lower:
  assumes "8198552921648689607 < S" "S \<le> maxInt64"
  shows "2 ^ 63 < S + uploadFileParallel_chunkSize S"
proof (cases "S + 8 \<le> 2 ^ 63")
  case True
  have "i64 (i64 (S + 8) - 1) = S + 7"
  proof (cases "S + 8 = 2 ^ 63")
    case True
    then have "i64 (i64 (S + 8) - 1) = 2 ^ 63 - 1" by (simp add: i64_def)
    with True show ?thesis by simp
  next
    case False
    with True have "S + 8 < 2 ^ 63" by simp
    then show ?thesis using assms by (simp add: i64_id)
  qed
  then have "uploadFileParallel_chunkSize S = max ((S + 7) div 8) defaultChunkSize"
    using assms by (simp add: uploadFileParallel_chunkSize_def Let_def quot_nonneg max_def)
  moreover have "(8198552921648689608 + 7) div 8 \<le> (S + 7) div 8"
    using assms(1) by (intro zdiv_mono1) simp_all
  ultimately show ?thesis using assms by (simp add: max_def defaultChunkSize_def)
next
  case False
  have "defaultChunkSize \<le> uploadFileParallel_chunkSize S"
    by (simp add: uploadFileParallel_chunkSize_def Let_def)
  then show ?thesis using False by (simp add: defaultChunkSize_def)
qed

lemma upload_numChunks_overflow:
  assumes "8198552921648689607 < S" "S \<le> maxInt64"
  shows "uploadFileParallel_numChunks S < 0"
proof -
  have S0: "0 \<le> S" using assms(1) by simp
  show ?thesis
    unfolding uploadFileParallel_numChunks_def Let_def
    by (rule numChunks_wrapped [OF upload_chunkSize_range [OF S0 assms(2)]
          upload_chunkSize_lower [OF assms] assms(2)])
qed

text \<open>
  C2. For a file size \<open>S\<close> at or above the 4 MiB threshold the parallel upload and
  download paths compute \<open>chunkSize = max(ceil(S/8), 4 MiB)\<close> and
  \<open>numChunks = ceil(S/chunkSize)\<close>, and the ranges
  \<open>[i*chunkSize, min((i+1)*chunkSize, S))\<close> for \<open>i = 0..numChunks-1\<close>, in index order,
  tile \<open>[0, S)\<close> with no gap and no overlap, the last one ending at \<open>S\<close>: this holds
  exactly for the sizes up to 8198552921648689607, the largest \<open>S\<close> with
  \<open>S + ceil(S/8) \<le> 2^63\<close>. For every larger \<open>int64\<close> size the sum
  \<open>fileSize + chunkSize - 1\<close> wraps around, \<open>numChunks\<close> is negative and the
  allocation of the result channel panics, so that no chunk range is produced.
\<close>

theorem chunk_ranges_partition:
  assumes "defaultChunkSize \<le> S" and "S \<le> maxInt64"
  shows "(S \<le> 8198552921648689607 \<longrightarrow>
            uploadFileParallel_chunkSize S = max ((S + 7) div 8) defaultChunkSize
          \<and> uploadFileParallel_numChunks S = (S + spec_chunkSize S - 1) div spec_chunkSize S
          \<and> uploadFileParallel_chunks S = Some (spec_chunks S)
          \<and> downloadFileParallel_chunkSize S = max ((S + 7) div 8) defaultChunkSize
          \<and> downloadFileParallel_numChunks S = (S + spec_chunkSize S - 1) div spec_chunkSize S
          \<and> downloadFileParallel_chunks S = Some (spec_chunks S)
          \<and> tiles 0 (spec_chunks S) S)
       \<and> (8198552921648689607 < S \<longrightarrow>
            uploadFileParallel_numChunks S < 0 \<and> uploadFileParallel_chunks S = None
          \<and> downloadFileParallel_numChunks S < 0 \<and> downloadFileParallel_chunks S = None)"
proof (intro conjI impI)
  assume b: "8198552921648689607 < S"
  from upload_numChunks_overflow [OF b assms(2)]
  show "uploadFileParallel_numChunks S < 0" "downloadFileParallel_numChunks S < 0"
    "uploadFileParallel_chunks S = None" "downloadFileParallel_chunks S = None"
    by (simp_all add: download_numChunks_upload download_chunks_upload uploadFileParallel_chunks_def)
next
  assume b: "S \<le> 8198552921648689607"
  have pos: "0 < S" using assms(1) by (simp add: defaultChunkSize_def)
  then have nn: "0 \<le> S" by simp
  note f = upload_chunkSize_eq [OF nn b] upload_numChunks_eq [OF nn b]
      upload_chunks_eq [OF pos b] tiles_spec_chunks [OF pos]
  show "uploadFileParallel_chunkSize S = max ((S + 7) div 8) defaultChunkSize"
    "downloadFileParallel_chunkSize S = max ((S + 7) div 8) defaultChunkSize"
    using f(1) by (simp_all add: download_chunkSize_upload spec_chunkSize_def)
  show "uploadFileParallel_numChunks S = (S + spec_chunkSize S - 1) div spec_chunkSize S"
    "downloadFileParallel_numChunks S = (S + spec_chunkSize S - 1) div spec_chunkSize S"
    using f(2) by (simp_all add: download_numChunks_upload spec_numChunks_def)
  show "uploadFileParallel_chunks S = Some (spec_chunks S)"
    "downloadFileParallel_chunks S = Some (spec_chunks S)"
    using f(3) by (simp_all add: download_chunks_upload)
  show "tiles 0 (spec_chunks S) S" by (rule f(4))
qed

theorem chunk_ranges_partition_witness:
  "defaultChunkSize \<le> 10485760 \<and> 10485760 \<le> maxInt64
   \<and> uploadFileParallel_chunks 10485760
       = Some [(0, 4194304), (4194304, 8388608), (8388608, 10485760)]
   \<and> downloadFileParallel_chunks 10485760
       = Some [(0, 4194304), (4194304, 8388608), (8388608, 10485760)]
   \<and> tiles 0 (spec_chunks 10485760) 10485760
   \<and> defaultChunkSize \<le> 8198552921648689608 \<and> 8198552921648689608 \<le> maxInt64
   \<and> uploadFileParallel_chunks 8198552921648689608 = None
   \<and> downloadFileParallel_chunks 8198552921648689608 = None"
proof -
  have a: "defaultChunkSize \<le> 10485760" by (simp add: defaultChunkSize_def)
  have b: "10485760 \<le> maxInt64" by (simp add: maxInt64_def)
  have a': "defaultChunkSize \<le> 8198552921648689608" by (simp add: defaultChunkSize_def)
  have b': "8198552921648689608 \<le> maxInt64" by (simp add: maxInt64_def)
  have n: "nat (spec_numChunks 10485760) = Suc (Suc (Suc 0))"
    by (simp add: spec_numChunks_def spec_chunkSize_def defaultChunkSize_def)
  have c: "spec_chunks 10485760 = [(0, 4194304), (4194304, 8388608), (8388608, 10485760)]"
    unfolding spec_chunks_def n by (simp add: spec_chunkSize_def defaultChunkSize_def)
  show ?thesis
    using a b a' b' chunk_ranges_partition [OF a b] chunk_ranges_partition [OF a' b']
    unfolding c by simp
qed

text \<open>
  C2 at \<open>S = 2^63 - 1\<close>, a size the \<open>int64\<close> Content-Length of a HEAD reply can carry:
  \<open>fileSize + numWorkers - 1\<close> wraps, the chunk size falls back to 4 MiB,
  \<open>fileSize + chunkSize - 1\<close> wraps as well, \<open>numChunks\<close> is \<open>-2199023255551\<close> and no
  chunk range is produced.
\<close>

theorem chunk_ranges_overflow_counterexample:
  "defaultChunkSize \<le> maxInt64
   \<and> uploadFileParallel_chunkSize maxInt64 = 4194304
   \<and> uploadFileParallel_numChunks maxInt64 = - 2199023255551
   \<and> uploadFileParallel_chunks maxInt64 = None
   \<and> downloadFileParallel_chunks maxInt64 = None"
proof -
  have "defaultChunkSize \<le> maxInt64" by (simp add: defaultChunkSize_def maxInt64_def)
  then show ?thesis
    by (simp add: chunkSize_maxInt64 numChunks_maxInt64 uploadFileParallel_chunks_def download_chunks_upload)
qed

section \<open>Properties: key derivation\<close>

lemma sampleLib_ok: "pbkdf2_length_ok sampleLib"
  by (auto simp add: pbkdf2_length_ok_def sampleLib_def min_def)

text \<open>
  C10. Key derivation fails if and only if the passphrase is empty. For a non-empty
  passphrase \<open>GetBlockCrypt\<close> hashes it with SHA-256 (in hexadecimal), applies PBKDF2
  with the salt \<open>kcp-file-transfer\<close>, 4096 iterations and a 32-byte output, and builds
  the AES cipher from that key; the result depends on the passphrase alone.
\<close>

theorem key_derivation:
  assumes "pbkdf2_length_ok lib"
  shows "(isl (GetBlockCrypt lib key) \<longleftrightarrow> key = [])
       \<and> (key \<noteq> [] \<longrightarrow>
            GetBlockCrypt lib key =
              Inr (AESBlockCrypt
                    (pbkdf2_Key lib (hexEncode (sha256_Sum256 lib key)) ''kcp-file-transfer''
                       4096 32 SHA256)))
       \<and> (key \<noteq> [] \<longrightarrow>
            length (pbkdf2_Key lib (hexEncode (sha256_Sum256 lib key)) ''kcp-file-transfer''
                       4096 32 SHA256) = 32)"
proof -
  have len: "length (pbkdf2_Key lib (hashKey lib key) Salt 4096 32 SHA256) = 32"
    using assms by (simp add: pbkdf2_length_ok_def)
  show ?thesis
    using len
    by (simp add: GetBlockCrypt_def ValidateKey_def NewAESBlockCrypt_def Let_def hashKey_def Salt_def)
qed


theorem key_derivation_witness:
  "pbkdf2_length_ok sampleLib \<and> isl (GetBlockCrypt sampleLib '''') \<and>
   GetBlockCrypt sampleLib ''abc'' = Inr (AESBlockCrypt (pbkdf2_Key sampleLib (hexEncode (sha256_Sum256 sampleLib ''abc'')) ''kcp-file-transfer'' 4096 32 SHA256))"
  using key_derivation [OF sampleLib_ok, of "''abc''"] key_derivation [OF sampleLib_ok, of "''''"] sampleLib_ok
  by simp

section \<open>Properties: the upload handler\<close>







lemma httpError_not_200: "code \<noteq> 200 \<Longrightarrow> statusCode (httpError msg code) \<noteq> 200"
  by (simp add: httpError_def)








lemma suf: "hasSuffix ''/srv/data/f'' ''.tar.gz'' = False"
  by code_simp







section \<open>Properties: path safety of the server actions\<close>

lemma safeTargetsI:
  "isPathSafe env q = (p, True) \<Longrightarrow> q \<in> set (requestPaths r) \<Longrightarrow> p \<in> set (safeTargets env r)"
  by (force simp: safeTargets_def)















lemma permitted_extract_parent:
  "isPathSafe env q = (p, True) \<Longrightarrow> q \<in> set (requestPaths r)
     \<Longrightarrow> permitted env r (ExtractArchive k p (filepath_Dir p))"
  by (simp add: permitted_def safeTargetsI)

lemma permitted_pair:
  "isPathSafe env q = (p, True) \<Longrightarrow> q \<in> set (requestPaths r)
   \<Longrightarrow> isPathSafe env q' = (p', True) \<Longrightarrow> q' \<in> set (requestPaths r)
   \<Longrightarrow> callPaths c = [p, p'] \<Longrightarrow> permitted env r c"
  by (simp add: permitted_def safeTargetsI)

lemma validSources_safe:
  assumes "p \<in> set (validSources env (splitComma (query r ''paths'')))"
  shows "p \<in> set (safeTargets env r)"
proof -
  from assms obtain p0 where p0: "p0 \<in> set (splitComma (query r ''paths''))"
    and q: "isPathSafe env (trimSpace p0) = (p, True)"
    by (auto simp: validSources_def Let_def split: if_splits prod.splits)
  have "trimSpace p0 \<in> set (requestPaths r)" using p0 by (simp add: requestPaths_def)
  with q show ?thesis by (rule safeTargetsI)
qed

lemma permitted_archive:
  "isPathSafe env q = (out, True) \<Longrightarrow> q \<in> set (requestPaths r)
     \<Longrightarrow> permitted env r (CreateArchive f out (validSources env (splitComma (query r ''paths''))))"
  by (simp add: permitted_def safeTargetsI list_all_iff validSources_safe)





























section \<open>Properties: single-stream download\<close>






















end
